theory Spec2Isabelle
  imports Main
begin

section \<open>Regular expressions used by internal/aws/util.go\<close>

text \<open>
  The provider-identity codec validates with the pattern \<^verbatim>\<open>^[^:]+://.*[^/]$\<close> and derives the
  region with \<^verbatim>\<open>[a-z]$\<close>.  Both are embedded as values of a small regular-expression type
  and run by a derivative matcher.  Strings are byte lists, as Go strings are; the three
  bytes the patterns single out (colon, slash, newline) are ASCII and never occur inside a
  multi-byte rune, so matching bytes and matching runes agree.  In Go the dot does not match
  a newline, while a negated class does.  Both patterns are anchored, so \<open>matches\<close> decides
  a match of the whole remaining text.
\<close>


datatype cc = Lit char | Except char | AnyButNL | Between char char

fun cc_has :: "cc \<Rightarrow> char \<Rightarrow> bool" where
  "cc_has (Lit a) c = (c = a)"
| "cc_has (Except a) c = (c \<noteq> a)"
| "cc_has AnyButNL c = (c \<noteq> CHR 0x0A)"
| "cc_has (Between lo hi) c = ((of_char lo :: nat) \<le> of_char c \<and> (of_char c :: nat) \<le> of_char hi)"

datatype rx = Nul | Eps | Cl cc | Seq rx rx | Alt rx rx | Star rx

fun nullable :: "rx \<Rightarrow> bool" where
  "nullable Nul = False"
| "nullable Eps = True"
| "nullable (Cl k) = False"
| "nullable (Seq r s) = (nullable r \<and> nullable s)"
| "nullable (Alt r s) = (nullable r \<or> nullable s)"
| "nullable (Star r) = True"

fun deriv :: "char \<Rightarrow> rx \<Rightarrow> rx" where
  "deriv c Nul = Nul"
| "deriv c Eps = Nul"
| "deriv c (Cl k) = (if cc_has k c then Eps else Nul)"
| "deriv c (Seq r s) =
     (if nullable r then Alt (Seq (deriv c r) s) (deriv c s) else Seq (deriv c r) s)"
| "deriv c (Alt r s) = Alt (deriv c r) (deriv c s)"
| "deriv c (Star r) = Seq (deriv c r) (Star r)"

fun matches :: "rx \<Rightarrow> string \<Rightarrow> bool" where
  "matches r [] = nullable r"
| "matches r (c # cs) = matches (deriv c r) cs"

definition Plus :: "rx \<Rightarrow> rx" where
  "Plus r = Seq r (Star r)"

definition providerIDRegex :: rx where
  "providerIDRegex =
     Seq (Plus (Cl (Except CHR '':'')))
      (Seq (Cl (Lit CHR '':'')) (Seq (Cl (Lit CHR ''/'')) (Seq (Cl (Lit CHR ''/''))
        (Seq (Star (Cl AnyButNL)) (Cl (Except CHR ''/''))))))"

definition re :: rx where
  "re = Cl (Between CHR ''a'' CHR ''z'')"

text \<open>
  \<^verbatim>\<open>re.ReplaceAll(s, "")\<close> for a pattern that ends in \<^verbatim>\<open>$\<close>: the leftmost position from
  which the rest of the text matches is where the only replacement starts.
\<close>

fun ReplaceAll_end :: "rx \<Rightarrow> string \<Rightarrow> string" where
  "ReplaceAll_end r [] = []"
| "ReplaceAll_end r (c # cs) = (if matches r (c # cs) then [] else c # ReplaceAll_end r cs)"

definition ParseRegionFromAZ :: "string \<Rightarrow> string" where
  "ParseRegionFromAZ s = ReplaceAll_end re s"

definition VerifyProviderID :: "string \<Rightarrow> bool" where
  "VerifyProviderID s = matches providerIDRegex s"

fun Split :: "string \<Rightarrow> char \<Rightarrow> string list" where
  "Split [] sep = [[]]"
| "Split (c # cs) sep =
     (if c = sep then [] # Split cs sep
      else (case Split cs sep of [] \<Rightarrow> [[c]] | x # xs \<Rightarrow> (c # x) # xs))"



text \<open>
  The language of an expression, used to reason about the matcher: \<open>matches\<close> decides
  membership.
\<close>

inductive_set star :: "string set \<Rightarrow> string set" for A :: "string set" where
  star_nil: "[] \<in> star A"
| star_app: "u \<in> A \<Longrightarrow> v \<in> star A \<Longrightarrow> u @ v \<in> star A"

fun lang :: "rx \<Rightarrow> string set" where
  "lang Nul = {}"
| "lang Eps = {[]}"
| "lang (Cl k) = {w. \<exists>c. w = [c] \<and> cc_has k c}"
| "lang (Seq r s) = {w. \<exists>u v. w = u @ v \<and> u \<in> lang r \<and> v \<in> lang s}"
| "lang (Alt r s) = lang r \<union> lang s"
| "lang (Star r) = star (lang r)"


section \<open>Errors, panics and results\<close>

text \<open>
  An error of the AWS SDK either implements \<^verbatim>\<open>awserr.Error\<close> (it has a code and a message)
  or is some other error value.
\<close>

datatype sdk_error = AwsErr string string | PlainErr string

datatype wait_reason = WaitPending | WaitStopping | WaitTerminating

text \<open>
  The error values the modelled functions build.  \<open>RequeueAfterError d why name\<close> is the
  \<^verbatim>\<open>errors.Wrapf(&mapierrors.RequeueAfterError{RequeueAfter: d * time.Second}, ...)\<close> of
  \<^verbatim>\<open>reconcileDelete\<close>; \<open>UnknownState name state\<close> is its
  \<^verbatim>\<open>machine %q has unknown state %q\<close>.
\<close>

datatype error =
    InvalidProviderID string
  | Backend sdk_error
  | CannotDetermineSubnet string
  | NoInstances
  | RequeueAfterError nat wait_reason string
  | UnknownState string string
  | MissingCloudConfig string
  | ClientError string
  | GzipError string

text \<open>
  A Go call returns a value, returns an error, or panics (a nil pointer dereference, an index
  out of range).
\<close>

datatype 'a res = Ok 'a | Err error | Panic

section \<open>Provider identity codec (internal/aws/util.go)\<close>

record ProviderID =
  AvailabilityZone :: string
  Region :: string
  InstanceID :: string

definition ParseProviderID :: "string \<Rightarrow> ProviderID res" where
  "ParseProviderID s =
     (if \<not> VerifyProviderID s then Err (InvalidProviderID s)
      else
        let ss = Split s CHR ''/'' in
        if length ss < 2 then Panic
        else
          let az = ss ! (length ss - 2) in
          Ok \<lparr>AvailabilityZone = az, Region = ParseRegionFromAZ az,
              InstanceID = ss ! (length ss - 1)\<rparr>)"

text \<open>
  The only place that builds an identity string is the
  \<^verbatim>\<open>fmt.Sprintf("aws:///%s/%s", zone, id)\<close> of \<^verbatim>\<open>AWSMachineReconciler.Reconcile\<close>.
\<close>

definition formatProviderID :: "string \<Rightarrow> string \<Rightarrow> string" where
  "formatProviderID zone ident = ''aws:///'' @ zone @ ''/'' @ ident"

section \<open>Data model\<close>

subsection \<open>EC2 structures of the SDK\<close>

text \<open>
  A pointer field that the SDK leaves nil when the response omits it is an \<open>option\<close>;
  the elements of a response slice are always allocated.
\<close>

record ec2InstanceState =
  StateName :: "string option"

record ec2Placement =
  PlacementAvailabilityZone :: "string option"

record ec2Association =
  PublicDnsName :: "string option"
  PublicIp :: "string option"

record ec2NetworkInterface =
  PrivateDnsName :: "string option"
  PrivateIpAddress :: "string option"
  Association :: "ec2Association option"

record ec2Instance =
  InstanceId :: "string option"
  State :: "ec2InstanceState option"
  Placement :: "ec2Placement option"
  NetworkInterfaces :: "ec2NetworkInterface list"

record ec2Subnet =
  SubnetId :: "string option"
  MapPublicIpOnLaunch :: "bool option"
  AvailableIpAddressCount :: "int option"

record ec2Filter =
  FilterName :: string
  FilterValues :: "string list"

record ec2BlockDeviceMapping =
  EbsDeviceName :: string
  EbsVolumeSize :: int
  EbsVolumeType :: string
  EbsEncrypted :: bool

datatype IamInstanceProfileSpecification = IamArn string | IamName string

record RunInstancesInput =
  RunBlockDeviceMappings :: "ec2BlockDeviceMapping list"
  RunImageId :: string
  RunInstanceType :: string
  RunKeyName :: string
  RunMaxCount :: int
  RunMinCount :: int
  RunTagSpecifications :: "(string \<times> (string \<times> string) list) list"
  RunUserData :: string
  RunIamInstanceProfile :: IamInstanceProfileSpecification
  RunSecurityGroupIds :: "string option list"
  RunSubnetId :: "string option"
  RunPlacement :: "ec2Placement option"

record awsConfig =
  CfgRegion :: string
  CfgCredentials :: "(string \<times> string) option"

definition StringValue :: "string option \<Rightarrow> string" where
  "StringValue p = (case p of None \<Rightarrow> [] | Some s \<Rightarrow> s)"

definition BoolValue :: "bool option \<Rightarrow> bool" where
  "BoolValue p = (case p of None \<Rightarrow> False | Some b \<Rightarrow> b)"

definition Int64Value :: "int option \<Rightarrow> int" where
  "Int64Value p = (case p of None \<Rightarrow> 0 | Some i \<Rightarrow> i)"

definition InstanceStateNamePending :: string where
  "InstanceStateNamePending = ''pending''"

definition InstanceStateNameRunning :: string where
  "InstanceStateNameRunning = ''running''"

definition InstanceStateNameShuttingDown :: string where
  "InstanceStateNameShuttingDown = ''shutting-down''"

definition InstanceStateNameTerminated :: string where
  "InstanceStateNameTerminated = ''terminated''"

definition InstanceStateNameStopping :: string where
  "InstanceStateNameStopping = ''stopping''"

definition InstanceStateNameStopped :: string where
  "InstanceStateNameStopped = ''stopped''"

definition SubnetStateAvailable :: string where
  "SubnetStateAvailable = ''available''"

definition InstanceNotFound :: string where
  "InstanceNotFound = ''InvalidInstanceID.NotFound''"

subsection \<open>Cluster resources (api/v1alpha1 and the machine-api types)\<close>

datatype MachineAddressType = MachineInternalDNS | MachineInternalIP | MachineExternalDNS | MachineExternalIP

type_synonym MachineAddress = "MachineAddressType \<times> string"

record AWSBlockDeviceMapping =
  DeviceName :: string
  VolumeSize :: int
  VolumeType :: string
  Encrypted :: bool

record ObjectMeta =
  Name :: string
  Namespace :: string
  DeletionTimestamp :: "nat option"
  Finalizers :: "string list"

text \<open>
  The zone and region fields of the spec carry the prefix \<open>Spec\<close>, since \<open>ProviderID\<close> has
  fields of the same names; \<open>SecretRef\<close> keeps the name of the referenced secret, the only
  part of the reference that is read.  \<open>Tags\<close> is a Go map; the list fixes one iteration
  order.
\<close>

record AWSMachineSpec =
  ProviderID :: "string option"
  AMI :: string
  BlockDevices :: "AWSBlockDeviceMapping list"
  InstanceType :: string
  IAMInstanceProfile :: string
  KeyName :: string
  Tags :: "(string \<times> string) list"
  SecurityGroupIDs :: "string list"
  SecurityGroupNames :: "string list"
  SpecAvailabilityZone :: string
  SpecRegion :: string
  SubnetIDs :: "string list"
  PublicIP :: bool
  VPCID :: string
  SecretRef :: "string option"

record AWSMachineStatus =
  Ready :: bool
  Addresses :: "MachineAddress list"
  InstanceState :: string
  FailureReason :: "string option"
  FailureMessage :: "string option"

record AWSMachine =
  ObjectMeta :: ObjectMeta
  Spec :: AWSMachineSpec
  Status :: AWSMachineStatus

record Machine =
  MachineName :: string
  MachineNamespace :: string
  ConfigRefName :: string

record Config =
  ConfigReady :: bool
  DataSecretName :: "string option"

record ObjectReference =
  RefKind :: string
  RefName :: string
  RefNamespace :: string

record Node =
  NodeName :: string
  NodeProviderID :: string
  Annotations :: "string \<rightharpoonup> string"

definition MachineFinalizer :: string where
  "MachineFinalizer = ''awsmachine.infrastructure.crit.sh''"

definition NodeOwnerLabelName :: string where
  "NodeOwnerLabelName = ''infrastructure.crit.sh/awsmachine''"

definition NamespaceSystem :: string where
  "NamespaceSystem = ''kube-system''"

text \<open>
  \<^verbatim>\<open>DeletionTimestamp.IsZero()\<close> of apimachinery: a nil time and the zero time are both zero.
\<close>

definition IsZero :: "nat option \<Rightarrow> bool" where
  "IsZero t = (case t of None \<Rightarrow> True | Some n \<Rightarrow> n = 0)"

text \<open>
  \<^verbatim>\<open>controllerutil.AddFinalizer\<close> appends the finalizer unless it is present;
  \<^verbatim>\<open>controllerutil.RemoveFinalizer\<close> drops every occurrence.
\<close>

definition AddFinalizer :: "AWSMachine \<Rightarrow> string \<Rightarrow> AWSMachine" where
  "AddFinalizer am f =
     (if f \<in> set (Finalizers (ObjectMeta am)) then am
      else am\<lparr>ObjectMeta := (ObjectMeta am)\<lparr>Finalizers := Finalizers (ObjectMeta am) @ [f]\<rparr>\<rparr>)"

definition RemoveFinalizer :: "AWSMachine \<Rightarrow> string \<Rightarrow> AWSMachine" where
  "RemoveFinalizer am f =
     am\<lparr>ObjectMeta := (ObjectMeta am)\<lparr>Finalizers := filter (\<lambda>g. g \<noteq> f) (Finalizers (ObjectMeta am))\<rparr>\<rparr>"

section \<open>The environment: compute backend, cluster client, runtime\<close>

text \<open>
  Every call that leaves the process is recorded in a trace.  The backend is a parameter:
  its answer to a call may depend on everything that was called before, so one \<open>EC2API\<close>
  value stands for an arbitrary backend history.
\<close>

datatype event =
    DescribeInstancesCall awsConfig string
  | TerminateInstancesCall awsConfig string
  | DescribeSecurityGroupsCall awsConfig "string list"
  | DescribeSubnetsCall awsConfig "ec2Filter list"
  | RunInstancesCall awsConfig RunInstancesInput
  | CreateCall AWSMachine
  | PatchNodeCall string ObjectReference

record EC2API =
  DescribeInstancesWithContext :: "event list \<Rightarrow> awsConfig \<Rightarrow> string \<Rightarrow> sdk_error + ec2Instance list list"
  TerminateInstances :: "event list \<Rightarrow> awsConfig \<Rightarrow> string \<Rightarrow> sdk_error option"
  DescribeSecurityGroupsWithContext :: "event list \<Rightarrow> awsConfig \<Rightarrow> string list \<Rightarrow> sdk_error + string option list"
  DescribeSubnetsWithContext :: "event list \<Rightarrow> awsConfig \<Rightarrow> ec2Filter list \<Rightarrow> sdk_error + ec2Subnet list"
  RunInstancesWithContext :: "event list \<Rightarrow> awsConfig \<Rightarrow> RunInstancesInput \<Rightarrow> sdk_error + ec2Instance list"

text \<open>
  The answers of the cluster client during one invocation.  \<open>Get_err\<close> is an error of the
  first \<^verbatim>\<open>r.Get\<close> other than not-found; \<open>GetOwnerMachine\<close> is machine-api's helper, which
  returns no machine and no error while the owner reference is unset.
\<close>

record Client =
  Get_err :: "string option"
  Update_err :: "string option"
  GetOwnerMachine :: "ObjectMeta \<Rightarrow> string + Machine option"
  NewHelper_err :: "string option"
  Patch_err :: "string option"
  GetConfig :: "string \<Rightarrow> string \<Rightarrow> string + Config"
  GetSecret :: "string \<Rightarrow> string \<Rightarrow> string + (string \<rightharpoonup> string)"
  List_AWSMachines :: "string + AWSMachine list"
  Create_err :: "string option"
  PatchNode_err :: "string option"

text \<open>
  Library calls whose result the model does not compute: the gzip writer, the base64
  encoder and the draw of \<^verbatim>\<open>rand.Intn\<close>.
\<close>

record Runtime =
  gzip_Write :: "string \<Rightarrow> string + string"
  base64_EncodeToString :: "string \<Rightarrow> string"
  rand_Intn :: "nat \<Rightarrow> nat"

record world =
  obj :: "AWSMachine option"
  trace :: "event list"

record Result =
  Requeue :: bool
  RequeueAfter :: nat

datatype outcome = Returned Result "error option" | Panicked

definition NoRequeue :: Result where
  "NoRequeue = \<lparr>Requeue = False, RequeueAfter = 0\<rparr>"

section \<open>Compute backend adapter (internal/aws/ec2.go, internal/util.go)\<close>

definition Gzip :: "Runtime \<Rightarrow> string \<Rightarrow> string res" where
  "Gzip rt data = (case gzip_Write rt data of Inl e \<Rightarrow> Err (GzipError e) | Inr b \<Rightarrow> Ok b)"

text \<open>
  \<^verbatim>\<open>ss[rand.Intn(len(ss))]\<close>: \<^verbatim>\<open>rand.Intn\<close> panics on 0 and returns an index below its
  argument otherwise.
\<close>

definition random :: "Runtime \<Rightarrow> string list \<Rightarrow> string res" where
  "random rt ss = (if ss = [] then Panic else Ok (ss ! (rand_Intn rt (length ss) mod length ss)))"

definition convertBlockDevices :: "AWSBlockDeviceMapping list \<Rightarrow> ec2BlockDeviceMapping list" where
  "convertBlockDevices blockDevices =
     map (\<lambda>b. \<lparr>EbsDeviceName = DeviceName b, EbsVolumeSize = VolumeSize b,
               EbsVolumeType = VolumeType b, EbsEncrypted = Encrypted b\<rparr>) blockDevices"

definition convertTags :: "(string \<times> string) list \<Rightarrow> (string \<times> string) list" where
  "convertTags tags = map (\<lambda>(key, val). (key, val)) tags"

fun eligible_subnets :: "ec2Subnet list \<Rightarrow> bool \<Rightarrow> string list \<Rightarrow> string list" where
  "eligible_subnets [] pub subnets = subnets"
| "eligible_subnets (subnet # rest) pub subnets =
     (if BoolValue (MapPublicIpOnLaunch subnet) = pub then
        (if Int64Value (AvailableIpAddressCount subnet) < 1 then eligible_subnets rest pub subnets
         else eligible_subnets rest pub (subnets @ [StringValue (SubnetId subnet)]))
      else eligible_subnets rest pub subnets)"

text \<open>
  \<^verbatim>\<open>LaunchInstance\<close> is written in three parts, in the order of the source: the request as
  first built (with the instance profile and the configured group ids), the filters of the
  subnet query, and the function itself, whose second half (from the subnet query to
  \<^verbatim>\<open>RunInstances\<close>) is \<open>LaunchInstance_subnet\<close>.
\<close>

definition launch_input :: "AWSMachine \<Rightarrow> string \<Rightarrow> RunInstancesInput" where
  "launch_input m userData =
     \<lparr>RunBlockDeviceMappings = convertBlockDevices (BlockDevices (Spec m)),
      RunImageId = AMI (Spec m),
      RunInstanceType = InstanceType (Spec m),
      RunKeyName = KeyName (Spec m),
      RunMaxCount = 1,
      RunMinCount = 1,
      RunTagSpecifications = [(''instance'', convertTags (Tags (Spec m)))],
      RunUserData = userData,
      RunIamInstanceProfile =
        (if take 3 (IAMInstanceProfile (Spec m)) = ''arn'' then IamArn (IAMInstanceProfile (Spec m))
         else IamName (IAMInstanceProfile (Spec m))),
      RunSecurityGroupIds =
        (if SecurityGroupIDs (Spec m) \<noteq> [] then map Some (SecurityGroupIDs (Spec m)) else []),
      RunSubnetId = None,
      RunPlacement = None\<rparr>"

definition subnet_filters :: "AWSMachine \<Rightarrow> ec2Filter list" where
  "subnet_filters m =
     [\<lparr>FilterName = ''vpc-id'', FilterValues = [VPCID (Spec m)]\<rparr>,
      \<lparr>FilterName = ''state'', FilterValues = [SubnetStateAvailable]\<rparr>]
     @ (if SpecAvailabilityZone (Spec m) \<noteq> []
        then [\<lparr>FilterName = ''availability-zone'', FilterValues = [SpecAvailabilityZone (Spec m)]\<rparr>]
        else [])
     @ (if SubnetIDs (Spec m) \<noteq> []
        then [\<lparr>FilterName = ''subnet-id'', FilterValues = SubnetIDs (Spec m)\<rparr>]
        else [])"

definition LaunchInstance_subnet ::
  "EC2API \<Rightarrow> Runtime \<Rightarrow> awsConfig \<Rightarrow> AWSMachine \<Rightarrow> RunInstancesInput \<Rightarrow> event list
     \<Rightarrow> ec2Instance res \<times> event list" where
  "LaunchInstance_subnet api rt cfg m input tr =
     (let sinput = subnet_filters m;
          tr1 = tr @ [DescribeSubnetsCall cfg sinput]
      in (case DescribeSubnetsWithContext api tr cfg sinput of
            Inl e \<Rightarrow> (Err (Backend e), tr1)
          | Inr sresp \<Rightarrow>
              if sresp = [] then (Err (CannotDetermineSubnet (VPCID (Spec m))), tr1)
              else
                (let subnets = eligible_subnets sresp (PublicIP (Spec m)) [] in
                 if subnets = [] then (Err (CannotDetermineSubnet (VPCID (Spec m))), tr1)
                 else
                   (case random rt subnets of
                      Panic \<Rightarrow> (Panic, tr1)
                    | Err e \<Rightarrow> (Err e, tr1)
                    | Ok subnet \<Rightarrow>
                        (let input1 = input
                               \<lparr>RunSubnetId := Some subnet,
                                RunPlacement :=
                                  (if SpecAvailabilityZone (Spec m) \<noteq> []
                                   then Some \<lparr>PlacementAvailabilityZone = Some (SpecAvailabilityZone (Spec m))\<rparr>
                                   else None)\<rparr>;
                             tr2 = tr1 @ [RunInstancesCall cfg input1]
                         in (case RunInstancesWithContext api tr1 cfg input1 of
                               Inl e \<Rightarrow> (Err (Backend e), tr2)
                             | Inr [] \<Rightarrow> (Err NoInstances, tr2)
                             | Inr (instance # _) \<Rightarrow> (Ok instance, tr2)))))))"

definition LaunchInstance ::
  "EC2API \<Rightarrow> Runtime \<Rightarrow> awsConfig \<Rightarrow> AWSMachine \<Rightarrow> string \<Rightarrow> event list \<Rightarrow> ec2Instance res \<times> event list" where
  "LaunchInstance api rt cfg m userData tr =
     (let input = launch_input m userData in
      if SecurityGroupNames (Spec m) \<noteq> [] then
        (case DescribeSecurityGroupsWithContext api tr cfg (SecurityGroupNames (Spec m)) of
           Inl e \<Rightarrow> (Err (Backend e), tr @ [DescribeSecurityGroupsCall cfg (SecurityGroupNames (Spec m))])
         | Inr sgs \<Rightarrow>
             LaunchInstance_subnet api rt cfg m
               (input\<lparr>RunSecurityGroupIds := RunSecurityGroupIds input @ sgs\<rparr>)
               (tr @ [DescribeSecurityGroupsCall cfg (SecurityGroupNames (Spec m))]))
      else LaunchInstance_subnet api rt cfg m input tr)"

definition TerminateInstance :: "EC2API \<Rightarrow> awsConfig \<Rightarrow> string \<Rightarrow> event list \<Rightarrow> unit res \<times> event list" where
  "TerminateInstance api cfg instanceID tr =
     (case TerminateInstances api tr cfg instanceID of
        Some e \<Rightarrow> (Err (Backend e), tr @ [TerminateInstancesCall cfg instanceID])
      | None \<Rightarrow> (Ok (), tr @ [TerminateInstancesCall cfg instanceID]))"

definition DescribeInstance ::
  "EC2API \<Rightarrow> awsConfig \<Rightarrow> string \<Rightarrow> event list \<Rightarrow> (ec2Instance option \<times> bool) res \<times> event list" where
  "DescribeInstance api cfg instanceID tr =
     (let tr1 = tr @ [DescribeInstancesCall cfg instanceID] in
      case DescribeInstancesWithContext api tr cfg instanceID of
        Inl err \<Rightarrow>
          (case err of
             AwsErr code msg \<Rightarrow>
               if code = InstanceNotFound then (Ok (None, False), tr1) else (Err (Backend err), tr1)
           | PlainErr msg \<Rightarrow> (Err (Backend err), tr1))
      | Inr reservations \<Rightarrow>
          (case reservations of
             (instance # _) # _ \<Rightarrow> (Ok (Some instance, True), tr1)
           | _ \<Rightarrow> (Ok (None, False), tr1)))"

definition DescribeInstanceStatus ::
  "EC2API \<Rightarrow> awsConfig \<Rightarrow> string \<Rightarrow> event list \<Rightarrow> string res \<times> event list" where
  "DescribeInstanceStatus api cfg instanceID tr =
     (case DescribeInstance api cfg instanceID tr of
        (Err e, tr1) \<Rightarrow> (Err e, tr1)
      | (Panic, tr1) \<Rightarrow> (Panic, tr1)
      | (Ok (instance, exists), tr1) \<Rightarrow>
          if \<not> exists then (Ok InstanceStateNameTerminated, tr1)
          else
            (case instance of
               None \<Rightarrow> (Panic, tr1)
             | Some i \<Rightarrow>
                 (case State i of
                    None \<Rightarrow> (Panic, tr1)
                  | Some st \<Rightarrow> (Ok (StringValue (StateName st)), tr1))))"

section \<open>Controllers (controllers/node\_controller.go and the AWSMachine controller)\<close>

fun addresses_loop :: "ec2NetworkInterface list \<Rightarrow> MachineAddress list \<Rightarrow> MachineAddress list" where
  "addresses_loop [] addresses = addresses"
| "addresses_loop (eni # rest) addresses =
     (let addresses1 = addresses @
            [(MachineInternalDNS, StringValue (PrivateDnsName eni)),
             (MachineInternalIP, StringValue (PrivateIpAddress eni))]
      in case Association eni of
           None \<Rightarrow> addresses_loop rest addresses1
         | Some a \<Rightarrow>
             addresses_loop rest
               (addresses1 @
                  [(MachineExternalDNS, StringValue (PublicDnsName a)),
                   (MachineExternalIP, StringValue (PublicIp a))]))"

text \<open>
  \<^verbatim>\<open>getInstanceAddresses\<close> reads \<^verbatim>\<open>instance.NetworkInterfaces\<close> at once: a nil instance is a
  nil pointer dereference.
\<close>

definition getInstanceAddresses :: "ec2Instance option \<Rightarrow> MachineAddress list res" where
  "getInstanceAddresses instance =
     (case instance of
        None \<Rightarrow> Panic
      | Some i \<Rightarrow> Ok (addresses_loop (NetworkInterfaces i) []))"

definition reconcileDelete :: "EC2API \<Rightarrow> AWSMachine \<Rightarrow> event list \<Rightarrow> unit res \<times> event list" where
  "reconcileDelete api am tr =
     (case ProviderID (Spec am) of
        None \<Rightarrow> (Panic, tr)
      | Some s \<Rightarrow>
          (case ParseProviderID s of
             Err e \<Rightarrow> (Err e, tr)
           | Panic \<Rightarrow> (Panic, tr)
           | Ok p \<Rightarrow>
               (let awscfg = \<lparr>CfgRegion = Region p, CfgCredentials = None\<rparr> in
               (case DescribeInstanceStatus api awscfg (InstanceID p) tr of
                  (Err e, tr1) \<Rightarrow> (Err e, tr1)
                | (Panic, tr1) \<Rightarrow> (Panic, tr1)
                | (Ok state, tr1) \<Rightarrow>
                    if state = InstanceStateNamePending then
                      (Err (RequeueAfterError 10 WaitPending (Name (ObjectMeta am))), tr1)
                    else if state = InstanceStateNameStopping then
                      (Err (RequeueAfterError 10 WaitStopping (Name (ObjectMeta am))), tr1)
                    else if state = InstanceStateNameRunning \<or> state = InstanceStateNameStopped then
                      (case TerminateInstance api awscfg (InstanceID p) tr1 of
                         (Err e, tr2) \<Rightarrow> (Err e, tr2)
                       | (Panic, tr2) \<Rightarrow> (Panic, tr2)
                       | (Ok _, tr2) \<Rightarrow>
                           (Err (RequeueAfterError 10 WaitTerminating (Name (ObjectMeta am))), tr2))
                    else if state = InstanceStateNameShuttingDown then
                      (Err (RequeueAfterError 10 WaitTerminating (Name (ObjectMeta am))), tr1)
                    else if state = InstanceStateNameTerminated then (Ok (), tr1)
                    else (Err (UnknownState (Name (ObjectMeta am)) state), tr1)))))"

text \<open>
  \<^verbatim>\<open>reconcileStatus\<close> mutates the record it is given; the record is returned with whatever
  was written before an error or a panic.
\<close>

definition reconcileStatus ::
  "EC2API \<Rightarrow> AWSMachine \<Rightarrow> event list \<Rightarrow> unit res \<times> AWSMachine \<times> event list" where
  "reconcileStatus api am tr =
     (case ProviderID (Spec am) of
        None \<Rightarrow> (Panic, am, tr)
      | Some s \<Rightarrow>
          (case ParseProviderID s of
             Err e \<Rightarrow> (Err e, am, tr)
           | Panic \<Rightarrow> (Panic, am, tr)
           | Ok p \<Rightarrow>
               (let awscfg = \<lparr>CfgRegion = Region p, CfgCredentials = None\<rparr> in
               (case DescribeInstanceStatus api awscfg (InstanceID p) tr of
                  (Err e, tr1) \<Rightarrow> (Err e, am, tr1)
                | (Panic, tr1) \<Rightarrow> (Panic, am, tr1)
                | (Ok state, tr1) \<Rightarrow>
                    (let am1 = am\<lparr>Status := (Status am)\<lparr>InstanceState := state\<rparr>\<rparr> in
                    if \<not> Ready (Status am1) then
                      (case DescribeInstance api awscfg (InstanceID p) tr1 of
                         (Err e, tr2) \<Rightarrow> (Err e, am1, tr2)
                       | (Panic, tr2) \<Rightarrow> (Panic, am1, tr2)
                       | (Ok (instance, _), tr2) \<Rightarrow>
                           (case getInstanceAddresses instance of
                              Panic \<Rightarrow> (Panic, am1, tr2)
                            | Err e \<Rightarrow> (Err e, am1, tr2)
                            | Ok addrs \<Rightarrow>
                                (Ok (),
                                 am1\<lparr>Status := (Status am1)\<lparr>Addresses := addrs, Ready := True\<rparr>\<rparr>,
                                 tr2)))
                    else (Ok (), am1, tr1))))))"

text \<open>
  Lines 353 to 390 of \<^verbatim>\<open>AWSMachineReconciler.Reconcile\<close>: bootstrap data, credentials, launch,
  and the record of the new instance.  \<^verbatim>\<open>m.Status.SetFailure\<close> after a failed launch writes to
  the local copy of the owner, which is never sent back, so it leaves no mark on the world.
\<close>

definition Reconcile_launch ::
  "Client \<Rightarrow> Runtime \<Rightarrow> EC2API \<Rightarrow> Machine \<Rightarrow> Config \<Rightarrow> AWSMachine \<Rightarrow> event list
     \<Rightarrow> outcome \<times> AWSMachine \<times> event list" where
  "Reconcile_launch c rt api m cfg am tr =
     (case DataSecretName cfg of
        None \<Rightarrow> (Panicked, am, tr)
      | Some dsn \<Rightarrow>
          (case GetSecret c dsn (MachineNamespace m) of
             Inl e \<Rightarrow> (Returned NoRequeue (Some (ClientError e)), am, tr)
           | Inr s \<Rightarrow>
               (case s ''cloud-config'' of
                  None \<Rightarrow> (Returned NoRequeue (Some (MissingCloudConfig dsn)), am, tr)
                | Some userData \<Rightarrow>
                    (let awscfg0 = \<lparr>CfgRegion = SpecRegion (Spec am), CfgCredentials = None\<rparr>;
                        creds =
                          (case SecretRef (Spec am) of
                             None \<Rightarrow> Inr awscfg0
                           | Some ref \<Rightarrow>
                               (case GetSecret c ref (MachineNamespace m) of
                                  Inl e \<Rightarrow> Inl e
                                | Inr s2 \<Rightarrow>
                                    (let ident = StringValue (s2 ''AWS_ACCESS_KEY_ID'');
                                         secret = StringValue (s2 ''AWS_SECRET_ACCESS_KEY'')
                                     in if ident \<noteq> [] \<and> secret \<noteq> []
                                        then Inr (awscfg0\<lparr>CfgCredentials := Some (ident, secret)\<rparr>)
                                        else Inr awscfg0)))
                    in (case creds of
                         Inl e \<Rightarrow> (Returned NoRequeue (Some (ClientError e)), am, tr)
                       | Inr awscfg \<Rightarrow>
                           (case Gzip rt userData of
                              Err e \<Rightarrow> (Returned NoRequeue (Some e), am, tr)
                            | Panic \<Rightarrow> (Panicked, am, tr)
                            | Ok data \<Rightarrow>
                                (case LaunchInstance api rt awscfg am (base64_EncodeToString rt data) tr of
                                   (Err e, tr1) \<Rightarrow> (Returned NoRequeue (Some e), am, tr1)
                                 | (Panic, tr1) \<Rightarrow> (Panicked, am, tr1)
                                 | (Ok instance, tr1) \<Rightarrow>
                                     (case Placement instance of
                                        None \<Rightarrow> (Panicked, am, tr1)
                                      | Some pl \<Rightarrow>
                                          (let am1 = am\<lparr>Spec := (Spec am)\<lparr>ProviderID :=
                                                Some (formatProviderID
                                                  (StringValue (PlacementAvailabilityZone pl))
                                                  (StringValue (InstanceId instance)))\<rparr>\<rparr>
                                          in (case getInstanceAddresses (Some instance) of
                                               Panic \<Rightarrow> (Panicked, am1, tr1)
                                             | Err e \<Rightarrow> (Returned NoRequeue (Some e), am1, tr1)
                                             | Ok addrs \<Rightarrow>
                                                 (let am2 = am1\<lparr>Status := (Status am1)
                                                       \<lparr>Addresses := addrs, Ready := True\<rparr>\<rparr>
                                                 in (case reconcileStatus api am2 tr1 of
                                                      (Err e, am3, tr2) \<Rightarrow>
                                                        (Returned NoRequeue (Some e), am3, tr2)
                                                    | (Panic, am3, tr2) \<Rightarrow> (Panicked, am3, tr2)
                                                    | (Ok _, am3, tr2) \<Rightarrow>
                                                        (Returned NoRequeue None, am3, tr2)))))))))))))"

text \<open>
  Lines 336 to 351: the branches that run once the finalizer is on the record.
\<close>

definition Reconcile_body ::
  "Client \<Rightarrow> Runtime \<Rightarrow> EC2API \<Rightarrow> Machine \<Rightarrow> AWSMachine \<Rightarrow> event list
     \<Rightarrow> outcome \<times> AWSMachine \<times> event list" where
  "Reconcile_body c rt api m am tr =
     (if ProviderID (Spec am) \<noteq> None then
        (case reconcileStatus api am tr of
           (Err e, am1, tr1) \<Rightarrow> (Returned NoRequeue (Some e), am1, tr1)
         | (Panic, am1, tr1) \<Rightarrow> (Panicked, am1, tr1)
         | (Ok _, am1, tr1) \<Rightarrow> (Returned NoRequeue None, am1, tr1))
      else
        (case GetConfig c (ConfigRefName m) (MachineNamespace m) of
           Inl e \<Rightarrow> (Returned NoRequeue (Some (ClientError e)), am, tr)
         | Inr cfg \<Rightarrow>
             if \<not> ConfigReady cfg then (Returned \<lparr>Requeue = False, RequeueAfter = 5\<rparr> None, am, tr)
             else Reconcile_launch c rt api m cfg am tr))"

text \<open>
  The deferred \<^verbatim>\<open>patchHelper.Patch\<close>.  It runs when the function returns and also while a
  panic unwinds; its error replaces a nil result error only.
\<close>

definition deferred_patch ::
  "Client \<Rightarrow> outcome \<Rightarrow> AWSMachine \<Rightarrow> world \<Rightarrow> event list \<Rightarrow> outcome \<times> world" where
  "deferred_patch c out am w tr =
     (case Patch_err c of
        None \<Rightarrow> (out, \<lparr>obj = Some am, trace = tr\<rparr>)
      | Some e \<Rightarrow>
          ((case out of
              Returned r None \<Rightarrow> Returned r (Some (ClientError e))
            | Returned r (Some e0) \<Rightarrow> Returned r (Some e0)
            | Panicked \<Rightarrow> Panicked),
           \<lparr>obj = obj w, trace = tr\<rparr>))"

text \<open>
  \<^verbatim>\<open>AWSMachineReconciler.Reconcile\<close>.  The world holds the stored record of the request
  (\<open>None\<close>: not found) and the trace; \<^verbatim>\<open>r.Update\<close> and the patch write the record back.
\<close>

definition Reconcile :: "Client \<Rightarrow> Runtime \<Rightarrow> EC2API \<Rightarrow> world \<Rightarrow> outcome \<times> world" where
  "Reconcile c rt api w =
     (case Get_err c of
        Some e \<Rightarrow> (Returned NoRequeue (Some (ClientError e)), w)
      | None \<Rightarrow>
          (case obj w of
             None \<Rightarrow> (Returned NoRequeue None, w)
           | Some am \<Rightarrow>
               if \<not> IsZero (DeletionTimestamp (ObjectMeta am)) then
                 (case reconcileDelete api am (trace w) of
                    (Panic, tr1) \<Rightarrow> (Panicked, w\<lparr>trace := tr1\<rparr>)
                  | (Err e, tr1) \<Rightarrow>
                      (case Update_err c of
                         Some e \<Rightarrow> (Returned NoRequeue (Some (ClientError e)), w\<lparr>trace := tr1\<rparr>)
                       | None \<Rightarrow>
                           (Returned NoRequeue None,
                            \<lparr>obj = Some (RemoveFinalizer am MachineFinalizer), trace = tr1\<rparr>))
                  | (Ok _, tr1) \<Rightarrow>
                      (case Update_err c of
                         Some e \<Rightarrow> (Returned NoRequeue (Some (ClientError e)), w\<lparr>trace := tr1\<rparr>)
                       | None \<Rightarrow>
                           (Returned NoRequeue None,
                            \<lparr>obj = Some (RemoveFinalizer am MachineFinalizer), trace = tr1\<rparr>)))
               else if FailureMessage (Status am) \<noteq> None then (Returned NoRequeue None, w)
               else
                 (case GetOwnerMachine c (ObjectMeta am) of
                    Inl e \<Rightarrow> (Returned NoRequeue (Some (ClientError e)), w)
                  | Inr None \<Rightarrow> (Returned NoRequeue None, w)
                  | Inr (Some m) \<Rightarrow>
                      (case NewHelper_err c of
                         Some e \<Rightarrow> (Returned NoRequeue (Some (ClientError e)), w)
                       | None \<Rightarrow>
                           (case Reconcile_body c rt api m (AddFinalizer am MachineFinalizer) (trace w) of
                              (out, am2, tr2) \<Rightarrow> deferred_patch c out am2 w tr2)))))"

text \<open>Reconciling again and again, each time with the answers the cluster gives that time.\<close>

fun Reconcile_many :: "(Client \<times> Runtime) list \<Rightarrow> EC2API \<Rightarrow> world \<Rightarrow> world" where
  "Reconcile_many [] api w = w"
| "Reconcile_many ((c, rt) # rest) api w = Reconcile_many rest api (snd (Reconcile c rt api w))"

fun is_RunInstancesCall :: "event \<Rightarrow> bool" where
  "is_RunInstancesCall (RunInstancesCall cfg input) = True"
| "is_RunInstancesCall e = False"

fun is_TerminateInstancesCall :: "event \<Rightarrow> bool" where
  "is_TerminateInstancesCall (TerminateInstancesCall cfg ident) = True"
| "is_TerminateInstancesCall e = False"

subsection \<open>Node linking: \<^verbatim>\<open>NodeReconciler.ensureAWSMachineForNode\<close>\<close>

definition emptySpec :: AWSMachineSpec where
  "emptySpec =
     \<lparr>ProviderID = None, AMI = [], BlockDevices = [], InstanceType = [], IAMInstanceProfile = [],
      KeyName = [], Tags = [], SecurityGroupIDs = [], SecurityGroupNames = [],
      SpecAvailabilityZone = [], SpecRegion = [], SubnetIDs = [], PublicIP = False, VPCID = [],
      SecretRef = None\<rparr>"

definition emptyStatus :: AWSMachineStatus where
  "emptyStatus =
     \<lparr>Ready = False, Addresses = [], InstanceState = [], FailureReason = None,
      FailureMessage = None\<rparr>"

definition setAWSMachineAnnotation ::
  "Client \<Rightarrow> AWSMachine \<Rightarrow> string \<Rightarrow> event list \<Rightarrow> unit res \<times> event list" where
  "setAWSMachineAnnotation c m name tr =
     (let ref = \<lparr>RefKind = ''AWSMachine'', RefName = Name (ObjectMeta m),
                 RefNamespace = Namespace (ObjectMeta m)\<rparr>
      in case PatchNode_err c of
           Some e \<Rightarrow> (Err (ClientError e), tr)
         | None \<Rightarrow> (Ok (), tr @ [PatchNodeCall name ref]))"

definition ensureAWSMachineForNode ::
  "Client \<Rightarrow> EC2API \<Rightarrow> Node \<Rightarrow> event list \<Rightarrow> unit res \<times> event list" where
  "ensureAWSMachineForNode c api n tr =
     (if Annotations n NodeOwnerLabelName \<noteq> None then (Ok (), tr)
      else
        (case List_AWSMachines c of
           Inl e \<Rightarrow> (Err (ClientError e), tr)
         | Inr items \<Rightarrow>
             (case find (\<lambda>m. ProviderID (Spec m) = Some (NodeProviderID n)) items of
                Some m \<Rightarrow> setAWSMachineAnnotation c m (NodeName n) tr
              | None \<Rightarrow>
                  (case ParseProviderID (NodeProviderID n) of
                     Err e \<Rightarrow> (Err e, tr)
                   | Panic \<Rightarrow> (Panic, tr)
                   | Ok p \<Rightarrow>
                       (let awscfg = \<lparr>CfgRegion = Region p, CfgCredentials = None\<rparr> in
                       (case DescribeInstance api awscfg (InstanceID p) tr of
                          (Err e, tr1) \<Rightarrow> (Err e, tr1)
                        | (Panic, tr1) \<Rightarrow> (Panic, tr1)
                        | (Ok (instance, _), tr1) \<Rightarrow>
                            (case getInstanceAddresses instance of
                               Panic \<Rightarrow> (Panic, tr1)
                             | Err e \<Rightarrow> (Err e, tr1)
                             | Ok addrs \<Rightarrow>
                                 (let am =
                                       \<lparr>ObjectMeta =
                                          \<lparr>Name = NodeName n, Namespace = NamespaceSystem,
                                           DeletionTimestamp = None, Finalizers = []\<rparr>,
                                        Spec = emptySpec\<lparr>ProviderID := Some (NodeProviderID n)\<rparr>,
                                        Status = emptyStatus\<lparr>Addresses := addrs\<rparr>\<rparr>
                                 in (case Create_err c of
                                      Some e \<Rightarrow> (Err (ClientError e), tr1)
                                    | None \<Rightarrow>
                                        setAWSMachineAnnotation c am (NodeName n)
                                          (tr1 @ [CreateCall am]))))))))))"


section \<open>Composites named by the properties\<close>

text \<open>Parsing an identity string and formatting the parsed zone and instance id again.\<close>

definition format_parse :: "string \<Rightarrow> string res" where
  "format_parse s =
     (case ParseProviderID s of
        Ok p \<Rightarrow> Ok (formatProviderID (AvailabilityZone p) (InstanceID p))
      | Err e \<Rightarrow> Err e
      | Panic \<Rightarrow> Panic)"


fun is_DescribeSecurityGroupsCall :: "event \<Rightarrow> bool" where
  "is_DescribeSecurityGroupsCall (DescribeSecurityGroupsCall cfg names) = True"
| "is_DescribeSecurityGroupsCall e = False"

section \<open>Concrete environments\<close>

text \<open>
  Small, fully determined environments on which the properties below are run: a backend
  that gives the same answers whatever was called before, a cluster client whose calls all
  succeed, and one machine record.
\<close>

definition fixed_backend ::
  "(sdk_error + ec2Instance list list) \<Rightarrow> (sdk_error + string option list)
     \<Rightarrow> (sdk_error + ec2Subnet list) \<Rightarrow> (sdk_error + ec2Instance list) \<Rightarrow> EC2API" where
  "fixed_backend described groups subnets launched =
     \<lparr>DescribeInstancesWithContext = (\<lambda>tr cfg ident. described),
      TerminateInstances = (\<lambda>tr cfg ident. None),
      DescribeSecurityGroupsWithContext = (\<lambda>tr cfg names. groups),
      DescribeSubnetsWithContext = (\<lambda>tr cfg filters. subnets),
      RunInstancesWithContext = (\<lambda>tr cfg input. launched)\<rparr>"

definition instance_in_state :: "string \<Rightarrow> ec2Instance" where
  "instance_in_state st =
     \<lparr>InstanceId = Some ''i-0abc'',
      State = Some \<lparr>StateName = Some st\<rparr>,
      Placement = Some \<lparr>PlacementAvailabilityZone = Some ''us-east-1a''\<rparr>,
      NetworkInterfaces =
        [\<lparr>PrivateDnsName = Some ''ip-10-0-0-5.ec2.internal'', PrivateIpAddress = Some ''10.0.0.5'',
          Association = None\<rparr>]\<rparr>"

definition backend_reporting :: "string \<Rightarrow> EC2API" where
  "backend_reporting st =
     fixed_backend (Inr [[instance_in_state st]]) (Inr [])
       (Inr [\<lparr>SubnetId = Some ''subnet-1'', MapPublicIpOnLaunch = Some False,
              AvailableIpAddressCount = Some 8\<rparr>])
       (Inr [instance_in_state st])"

definition backend_not_found :: EC2API where
  "backend_not_found =
     fixed_backend (Inl (AwsErr InstanceNotFound ''no such instance'')) (Inr []) (Inr []) (Inr [])"

definition backend_failing :: EC2API where
  "backend_failing =
     fixed_backend (Inl (AwsErr ''RequestLimitExceeded'' ''slow down'')) (Inr []) (Inr []) (Inr [])"

definition owner_machine :: Machine where
  "owner_machine = \<lparr>MachineName = ''worker-0'', MachineNamespace = ''kube-system'', ConfigRefName = ''worker-0''\<rparr>"

definition good_client :: Client where
  "good_client =
     \<lparr>Get_err = None, Update_err = None,
      GetOwnerMachine = (\<lambda>meta. Inr (Some owner_machine)),
      NewHelper_err = None, Patch_err = None,
      GetConfig = (\<lambda>name ns. Inr \<lparr>ConfigReady = True, DataSecretName = Some ''worker-0-data''\<rparr>),
      GetSecret = (\<lambda>name ns. Inr [''cloud-config'' \<mapsto> ''#cloud-config'']),
      List_AWSMachines = Inr [],
      Create_err = None, PatchNode_err = None\<rparr>"

definition ownerless_client :: Client where
  "ownerless_client = good_client\<lparr>GetOwnerMachine := (\<lambda>meta. Inr None)\<rparr>"

definition plain_runtime :: Runtime where
  "plain_runtime =
     \<lparr>gzip_Write = (\<lambda>data. Inr data), base64_EncodeToString = (\<lambda>data. data),
      rand_Intn = (\<lambda>n. 0)\<rparr>"

definition machine_record :: "string option \<Rightarrow> nat option \<Rightarrow> string list \<Rightarrow> AWSMachine" where
  "machine_record pid deleted fins =
     \<lparr>ObjectMeta = \<lparr>Name = ''worker-0'', Namespace = ''kube-system'', DeletionTimestamp = deleted,
                    Finalizers = fins\<rparr>,
      Spec = emptySpec\<lparr>ProviderID := pid, SpecRegion := ''us-east-1'', VPCID := ''vpc-1''\<rparr>,
      Status = emptyStatus\<rparr>"

definition joined_node :: Node where
  "joined_node =
     \<lparr>NodeName = ''ip-10-0-0-5'', NodeProviderID = ''aws:///us-east-1a/i-0abc'',
      Annotations = Map.empty\<rparr>"

definition east_1 :: awsConfig where
  "east_1 = \<lparr>CfgRegion = ''us-east-1'', CfgCredentials = None\<rparr>"

definition named_groups_machine :: AWSMachine where
  "named_groups_machine =
     (machine_record None None [])
       \<lparr>Spec := (Spec (machine_record None None []))\<lparr>SecurityGroupNames := [''web'']\<rparr>\<rparr>"

definition backend_lookup_failing :: EC2API where
  "backend_lookup_failing =
     fixed_backend (Inr []) (Inl (PlainErr ''timeout'')) (Inr []) (Inr [])"

fun is_DescribeInstancesCall :: "event \<Rightarrow> bool" where
  "is_DescribeInstancesCall (DescribeInstancesCall cfg ident) = True"
| "is_DescribeInstancesCall e = False"


section \<open>The matcher decides the language\<close>

lemma nullable_lang: "nullable r \<longleftrightarrow> [] \<in> lang r"
  by (induction r) (auto intro: star.intros)

lemma star_cons_split:
  assumes "w \<in> star A" and "w = c # x"
  shows "\<exists>u v. x = u @ v \<and> c # u \<in> A \<and> v \<in> star A"
  using assms
proof (induction arbitrary: x rule: star.induct)
  case star_nil
  then show ?case by simp
next
  case (star_app u v)
  show ?case
  proof (cases u)
    case Nil
    with star_app show ?thesis by simp
  next
    case (Cons a u')
    with star_app.prems have "a = c" and "x = u' @ v" by simp_all
    with Cons star_app.hyps show ?thesis by blast
  qed
qed

lemma star_cons_iff:
  "c # x \<in> star A \<longleftrightarrow> (\<exists>u v. x = u @ v \<and> c # u \<in> A \<and> v \<in> star A)"
proof
  assume "c # x \<in> star A"
  then show "\<exists>u v. x = u @ v \<and> c # u \<in> A \<and> v \<in> star A"
    by (rule star_cons_split) simp
next
  assume "\<exists>u v. x = u @ v \<and> c # u \<in> A \<and> v \<in> star A"
  then obtain u v where "x = u @ v" "c # u \<in> A" "v \<in> star A" by blast
  then show "c # x \<in> star A"
    using star_app [of "c # u" A v] by simp
qed

lemma deriv_lang: "w \<in> lang (deriv c r) \<longleftrightarrow> c # w \<in> lang r"
proof (induction r arbitrary: w)
  case (Seq r s)
  show ?case
  proof
    assume "w \<in> lang (deriv c (Seq r s))"
    then consider (l) u v where "w = u @ v" "u \<in> lang (deriv c r)" "v \<in> lang s"
      | (r) "nullable r" "w \<in> lang (deriv c s)"
      by (auto split: if_splits)
    then show "c # w \<in> lang (Seq r s)"
    proof cases
      case l
      then have "c # u \<in> lang r" using Seq.IH(1) by simp
      with l have "\<exists>x y. c # w = x @ y \<and> x \<in> lang r \<and> y \<in> lang s"
        by (intro exI[of _ "c # u"] exI[of _ v]) simp
      then show ?thesis by simp
    next
      case r
      then have "[] \<in> lang r" "c # w \<in> lang s" using Seq.IH(2) nullable_lang by simp_all
      then have "\<exists>x y. c # w = x @ y \<and> x \<in> lang r \<and> y \<in> lang s"
        by (intro exI[of _ "[]"] exI[of _ "c # w"]) simp
      then show ?thesis by simp
    qed
  next
    assume "c # w \<in> lang (Seq r s)"
    then obtain u v where uv: "c # w = u @ v" "u \<in> lang r" "v \<in> lang s" by auto
    show "w \<in> lang (deriv c (Seq r s))"
    proof (cases u)
      case Nil
      with uv have "nullable r" "w \<in> lang (deriv c s)"
        using nullable_lang Seq.IH(2) by simp_all
      then show ?thesis by simp
    next
      case (Cons a u')
      with uv have "w = u' @ v" "u' \<in> lang (deriv c r)" using Seq.IH(1) by simp_all
      with uv(3) show ?thesis by auto
    qed
  qed
next
  case (Star r)
  show ?case
    by (simp add: star_cons_iff Star.IH)
qed auto

lemma matches_lang: "matches r s \<longleftrightarrow> s \<in> lang r"
  by (induction s arbitrary: r) (simp_all add: nullable_lang deriv_lang)

lemma star_class: "star {w. \<exists>c. w = [c] \<and> P c} = {w. list_all P w}"
proof (rule set_eqI, rule iffI)
  fix w assume "w \<in> star {w. \<exists>c. w = [c] \<and> P c}"
  then show "w \<in> {w. list_all P w}"
    by (induction rule: star.induct) auto
next
  fix w assume "w \<in> {w. list_all P w}"
  then have "list_all P w" by simp
  then show "w \<in> star {w. \<exists>c. w = [c] \<and> P c}"
  proof (induction w)
    case Nil
    show ?case by (rule star_nil)
  next
    case (Cons a w)
    then have "[a] \<in> {w. \<exists>c. w = [c] \<and> P c}" "w \<in> star {w. \<exists>c. w = [c] \<and> P c}" by simp_all
    then have "[a] @ w \<in> star {w. \<exists>c. w = [c] \<and> P c}" by (rule star_app)
    then show ?case by simp
  qed
qed

lemma lang_SeqI: "u \<in> lang r \<Longrightarrow> v \<in> lang s \<Longrightarrow> u @ v \<in> lang (Seq r s)"
  by auto

lemma lang_LitI: "[c] \<in> lang (Cl (Lit c))"
  by simp

lemma VerifyProviderID_iff:
  "VerifyProviderID s \<longleftrightarrow>
     (\<exists>a b x. s = a @ ''://'' @ b @ [x] \<and> a \<noteq> [] \<and> CHR '':'' \<notin> set a
        \<and> CHR 0x0A \<notin> set b \<and> x \<noteq> CHR ''/'')"
  (is "?L \<longleftrightarrow> ?R")
proof
  assume ?L
  then have "s \<in> lang providerIDRegex" by (simp add: VerifyProviderID_def matches_lang)
  then obtain c a' b x where "s = (c # a') @ ''://'' @ b @ [x]"
    "c \<noteq> CHR '':''" "list_all (\<lambda>c. c \<noteq> CHR '':'') a'" "list_all (\<lambda>c. c \<noteq> CHR 0x0A) b" "x \<noteq> CHR ''/''"
    by (auto simp: providerIDRegex_def Plus_def star_class)
  then have "s = (c # a') @ ''://'' @ b @ [x] \<and> c # a' \<noteq> [] \<and> CHR '':'' \<notin> set (c # a')
        \<and> CHR 0x0A \<notin> set b \<and> x \<noteq> CHR ''/''"
    by (auto simp: list_all_iff)
  then show ?R by blast
next
  assume ?R
  then obtain a b x where s: "s = a @ ''://'' @ b @ [x]" and a: "a \<noteq> []" "CHR '':'' \<notin> set a"
    and b: "CHR 0x0A \<notin> set b" and x: "x \<noteq> CHR ''/''" by blast
  from a obtain c a' where a': "a = c # a'" by (cases a) auto
  have "\<exists>u v. a = u @ v \<and> (\<exists>d. u = [d] \<and> d \<noteq> CHR '':'') \<and> list_all (\<lambda>d. d \<noteq> CHR '':'') v"
    using a a' by (intro exI[of _ "[c]"] exI[of _ a']) (auto simp: list_all_iff)
  then have "a \<in> lang (Plus (Cl (Except CHR '':'')))"
    by (simp add: Plus_def star_class)
  moreover have "b \<in> lang (Star (Cl AnyButNL))"
    using b by (auto simp: star_class list_all_iff)
  moreover have "[x] \<in> lang (Cl (Except CHR ''/''))"
    using x by simp
  ultimately have "a @ ([CHR '':''] @ ([CHR ''/''] @ ([CHR ''/''] @ (b @ [x])))) \<in> lang providerIDRegex"
    unfolding providerIDRegex_def
    by (intro lang_SeqI lang_LitI)
  then have "s \<in> lang providerIDRegex"
    by (simp add: s)
  then show ?L by (simp add: VerifyProviderID_def matches_lang)
qed

lemma ParseRegionFromAZ_eq:
  "ParseRegionFromAZ s =
     (if s \<noteq> [] \<and> cc_has (Between CHR ''a'' CHR ''z'') (last s) then butlast s else s)"
proof -
  have m: "matches re w \<longleftrightarrow> (\<exists>c. w = [c] \<and> cc_has (Between CHR ''a'' CHR ''z'') c)" for w
    by (simp add: matches_lang re_def)
  show ?thesis
    unfolding ParseRegionFromAZ_def
  proof (induction s)
    case Nil
    show ?case by simp
  next
    case (Cons a s)
    show ?case
    proof (cases "s = []")
      case True
      then show ?thesis by (simp add: re_def)
    next
      case False
      then have "\<not> matches re (a # s)" by (subst m) simp
      with False Cons show ?thesis by simp
    qed
  qed
qed


section \<open>Provider identity codec: properties\<close>

lemma Split_nonempty: "Split s sep \<noteq> []"
  by (induction s) (auto split: list.splits)

lemma Split_no_sep: "sep \<notin> set a \<Longrightarrow> Split a sep = [a]"
  by (induction a) auto

lemma Split_append: "sep \<notin> set a \<Longrightarrow> Split (a @ sep # b) sep = a # Split b sep"
  by (induction a) auto

lemma Split_elems: "x \<in> set (Split s sep) \<Longrightarrow> sep \<notin> set x"
proof (induction s arbitrary: x)
  case Nil
  then show ?case by simp
next
  case (Cons c s)
  then show ?case
    by (cases "Split s sep") (auto split: if_splits)
qed

lemma Split_length: "length (Split s sep) = Suc (length (filter (\<lambda>c. c = sep) s))"
  by (induction s) (auto split: list.splits simp: Split_nonempty)

lemma VerifyProviderID_segments:
  assumes "VerifyProviderID s"
  shows "3 \<le> length (Split s CHR ''/'')"
proof -
  from assms obtain a b x where "s = a @ ''://'' @ b @ [x]"
    unfolding VerifyProviderID_iff by blast
  then show ?thesis by (simp add: Split_length)
qed

lemma ParseProviderID_valid:
  assumes "VerifyProviderID s"
  shows "ParseProviderID s =
           Ok \<lparr>AvailabilityZone = Split s CHR ''/'' ! (length (Split s CHR ''/'') - 2),
               Region = ParseRegionFromAZ (Split s CHR ''/'' ! (length (Split s CHR ''/'') - 2)),
               InstanceID = Split s CHR ''/'' ! (length (Split s CHR ''/'') - 1)\<rparr>"
  using assms VerifyProviderID_segments [OF assms] by (simp add: ParseProviderID_def Let_def)

lemma ParseProviderID_never_panics: "ParseProviderID s \<noteq> Panic"
proof (cases "VerifyProviderID s")
  case True
  then show ?thesis by (simp add: ParseProviderID_valid)
next
  case False
  then show ?thesis by (simp add: ParseProviderID_def)
qed

lemma Split_aws_form:
  assumes "CHR ''/'' \<notin> set z" and "CHR ''/'' \<notin> set i"
  shows "Split (''aws:///'' @ z @ ''/'' @ i) CHR ''/'' = [''aws:'', [], [], z, i]"
proof -
  have "Split (z @ CHR ''/'' # i) CHR ''/'' = [z, i]"
    using assms by (simp add: Split_append Split_no_sep)
  then show ?thesis by simp
qed

text \<open>
  C2, as the code has it.  The identity string is rebuilt with the fixed prefix
  \<^verbatim>\<open>aws:///\<close> from the last two segments only, so a valid string survives the round trip
  exactly when it is \<^verbatim>\<open>aws:///<zone>/<id>\<close> with no slash inside the zone or the id.
\<close>

theorem format_parse_roundtrip:
  assumes "VerifyProviderID s"
  shows "format_parse s = Ok s \<longleftrightarrow>
           (\<exists>z i. s = ''aws:///'' @ z @ ''/'' @ i \<and> CHR ''/'' \<notin> set z \<and> CHR ''/'' \<notin> set i)"
proof
  let ?ss = "Split s CHR ''/''"
  let ?z = "?ss ! (length ?ss - 2)" and ?i = "?ss ! (length ?ss - 1)"
  assume "format_parse s = Ok s"
  then have s: "s = ''aws:///'' @ ?z @ ''/'' @ ?i"
    using assms by (simp add: format_parse_def ParseProviderID_valid formatProviderID_def)
  have "3 \<le> length ?ss" using assms by (rule VerifyProviderID_segments)
  then have "?z \<in> set ?ss" "?i \<in> set ?ss" by simp_all
  then have "CHR ''/'' \<notin> set ?z" "CHR ''/'' \<notin> set ?i" by (auto dest: Split_elems)
  with s show "\<exists>z i. s = ''aws:///'' @ z @ ''/'' @ i \<and> CHR ''/'' \<notin> set z \<and> CHR ''/'' \<notin> set i"
    by blast
next
  assume "\<exists>z i. s = ''aws:///'' @ z @ ''/'' @ i \<and> CHR ''/'' \<notin> set z \<and> CHR ''/'' \<notin> set i"
  then obtain z i where s: "s = ''aws:///'' @ z @ ''/'' @ i"
    and zi: "CHR ''/'' \<notin> set z" "CHR ''/'' \<notin> set i" by blast
  have "Split s CHR ''/'' = [''aws:'', [], [], z, i]"
    unfolding s using zi by (rule Split_aws_form)
  then have "ParseProviderID s = Ok \<lparr>AvailabilityZone = z, Region = ParseRegionFromAZ z, InstanceID = i\<rparr>"
    using assms by (simp add: ParseProviderID_valid)
  then show "format_parse s = Ok s"
    by (simp add: format_parse_def formatProviderID_def s)
qed

lemma valid_aws_example: "VerifyProviderID ''aws:///us-east-1a/i-0abc''"
  by (simp add: VerifyProviderID_def providerIDRegex_def Plus_def)

theorem format_parse_roundtrip_witness:
  "VerifyProviderID ''aws:///us-east-1a/i-0abc''
   \<and> format_parse ''aws:///us-east-1a/i-0abc'' = Ok ''aws:///us-east-1a/i-0abc''"
proof -
  have "''aws:///us-east-1a/i-0abc'' = ''aws:///'' @ ''us-east-1a'' @ ''/'' @ ''i-0abc''
          \<and> CHR ''/'' \<notin> set ''us-east-1a'' \<and> CHR ''/'' \<notin> set ''i-0abc''"
    by simp
  then have "\<exists>z i. ''aws:///us-east-1a/i-0abc'' = ''aws:///'' @ z @ ''/'' @ i
          \<and> CHR ''/'' \<notin> set z \<and> CHR ''/'' \<notin> set i"
    by blast
  with format_parse_roundtrip [OF valid_aws_example] valid_aws_example show ?thesis
    by blast
qed

text \<open>
  C2 as stated fails: a valid string with another scheme or a non-empty authority comes back
  changed.
\<close>

theorem format_parse_not_identity:
  "VerifyProviderID ''aws://cluster/us-east-1a/i-0abc''
   \<and> format_parse ''aws://cluster/us-east-1a/i-0abc'' = Ok ''aws:///us-east-1a/i-0abc''
   \<and> format_parse ''aws://cluster/us-east-1a/i-0abc'' \<noteq> Ok ''aws://cluster/us-east-1a/i-0abc''"
  by (simp add: format_parse_def ParseProviderID_def formatProviderID_def VerifyProviderID_def
      providerIDRegex_def Plus_def Let_def)

text \<open>
  C3, as the code has it.  A string without the scheme separator \<^verbatim>\<open>://\<close> (the empty string
  among them) or with a trailing slash is rejected with the invalid-format error, and no
  value is returned.  The number of segments after the separator is not checked.
\<close>

theorem parse_rejects_malformed:
  assumes "(\<nexists>a b. s = a @ ''://'' @ b) \<or> (s \<noteq> [] \<and> last s = CHR ''/'')"
  shows "ParseProviderID s = Err (InvalidProviderID s)"
proof -
  have "\<not> VerifyProviderID s"
  proof
    assume "VerifyProviderID s"
    then obtain a b x where s: "s = a @ ''://'' @ b @ [x]" and x: "x \<noteq> CHR ''/''"
      unfolding VerifyProviderID_iff by blast
    from s have "s = a @ ''://'' @ (b @ [x])" by simp
    then have "\<exists>a b. s = a @ ''://'' @ b" by blast
    moreover from s x have "s \<noteq> [] \<and> last s \<noteq> CHR ''/''" by simp
    ultimately show False using assms by blast
  qed
  then show ?thesis by (simp add: ParseProviderID_def)
qed

theorem parse_rejects_malformed_witness:
  "ParseProviderID ''aws:///us-east-1a/i-0abc/'' = Err (InvalidProviderID ''aws:///us-east-1a/i-0abc/'')"
proof -
  have "''aws:///us-east-1a/i-0abc/'' \<noteq> [] \<and> last ''aws:///us-east-1a/i-0abc/'' = CHR ''/''"
    by simp
  then show ?thesis
    using parse_rejects_malformed [of "''aws:///us-east-1a/i-0abc/''"] by blast
qed

text \<open>
  C3 as stated fails for the third kind of malformed string: with a single segment after the
  scheme separator the parse succeeds, with an empty zone.
\<close>

theorem parse_accepts_single_segment:
  "''aws://i-123'' = ''aws://'' @ ''i-123''
   \<and> length (Split ''i-123'' CHR ''/'') = 1
   \<and> ParseProviderID ''aws://i-123'' = Ok \<lparr>AvailabilityZone = [], Region = [], InstanceID = ''i-123''\<rparr>"
  by (simp add: ParseProviderID_def VerifyProviderID_def providerIDRegex_def Plus_def Let_def
      ParseRegionFromAZ_def)

section \<open>Compute backend adapter: properties\<close>

lemmas state_names =
  InstanceStateNamePending_def InstanceStateNameRunning_def InstanceStateNameShuttingDown_def
  InstanceStateNameTerminated_def InstanceStateNameStopping_def InstanceStateNameStopped_def

lemma DescribeInstance_trace:
  "snd (DescribeInstance api cfg ident tr) = tr @ [DescribeInstancesCall cfg ident]"
  by (simp add: DescribeInstance_def Let_def split: sum.splits sdk_error.splits list.splits)

lemma DescribeInstance_no_panic: "fst (DescribeInstance api cfg ident tr) \<noteq> Panic"
  by (simp add: DescribeInstance_def Let_def split: sum.splits sdk_error.splits list.splits)

lemma DescribeInstanceStatus_trace:
  "snd (DescribeInstanceStatus api cfg ident tr) = tr @ [DescribeInstancesCall cfg ident]"
proof -
  obtain r tr1 where d: "DescribeInstance api cfg ident tr = (r, tr1)"
    by (cases "DescribeInstance api cfg ident tr")
  then have "tr1 = tr @ [DescribeInstancesCall cfg ident]"
    using DescribeInstance_trace [of api cfg ident tr] by simp
  with d show ?thesis
    by (simp add: DescribeInstanceStatus_def split: res.splits prod.splits option.splits)
qed

lemma DescribeInstance_not_found:
  assumes "DescribeInstancesWithContext api tr cfg ident = Inl (AwsErr InstanceNotFound msg)"
  shows "DescribeInstance api cfg ident tr = (Ok (None, False), tr @ [DescribeInstancesCall cfg ident])"
  using assms by (simp add: DescribeInstance_def Let_def)

lemma DescribeInstance_empty:
  assumes "DescribeInstancesWithContext api tr cfg ident = Inr rs" and "rs = [] \<or> hd rs = []"
  shows "DescribeInstance api cfg ident tr = (Ok (None, False), tr @ [DescribeInstancesCall cfg ident])"
  using assms by (auto simp: DescribeInstance_def Let_def split: list.splits)

lemma DescribeInstance_error:
  assumes "DescribeInstancesWithContext api tr cfg ident = Inl e"
    and "\<forall>msg. e \<noteq> AwsErr InstanceNotFound msg"
  shows "DescribeInstance api cfg ident tr = (Err (Backend e), tr @ [DescribeInstancesCall cfg ident])"
  using assms by (auto simp: DescribeInstance_def Let_def split: sdk_error.splits)

text \<open>
  C7.  When the backend answers with the not-found error code, or with no instance at all,
  \<open>DescribeInstance\<close> returns the value \<open>(None, False)\<close> and no error, and
  \<open>DescribeInstanceStatus\<close> returns the state name \<open>terminated\<close> and no error.  Every other
  backend error is returned as the error of both.
\<close>

theorem describe_not_found_is_a_value:
  "(DescribeInstancesWithContext api tr cfg ident = Inl (AwsErr InstanceNotFound msg)
      \<or> DescribeInstancesWithContext api tr cfg ident = Inr []
      \<or> DescribeInstancesWithContext api tr cfg ident = Inr ([] # rs)
    \<longrightarrow> DescribeInstance api cfg ident tr = (Ok (None, False), tr @ [DescribeInstancesCall cfg ident])
        \<and> DescribeInstanceStatus api cfg ident tr
            = (Ok InstanceStateNameTerminated, tr @ [DescribeInstancesCall cfg ident]))
   \<and> (DescribeInstancesWithContext api tr cfg ident = Inl e \<and> (\<forall>m. e \<noteq> AwsErr InstanceNotFound m)
    \<longrightarrow> DescribeInstance api cfg ident tr = (Err (Backend e), tr @ [DescribeInstancesCall cfg ident])
        \<and> DescribeInstanceStatus api cfg ident tr
            = (Err (Backend e), tr @ [DescribeInstancesCall cfg ident]))"
proof (intro conjI impI)
  assume nf: "DescribeInstancesWithContext api tr cfg ident = Inl (AwsErr InstanceNotFound msg)
      \<or> DescribeInstancesWithContext api tr cfg ident = Inr []
      \<or> DescribeInstancesWithContext api tr cfg ident = Inr ([] # rs)"
  then show d: "DescribeInstance api cfg ident tr = (Ok (None, False), tr @ [DescribeInstancesCall cfg ident])"
    by (auto simp: DescribeInstance_not_found DescribeInstance_empty)
  then show "DescribeInstanceStatus api cfg ident tr
            = (Ok InstanceStateNameTerminated, tr @ [DescribeInstancesCall cfg ident])"
    by (simp add: DescribeInstanceStatus_def)
next
  assume e: "DescribeInstancesWithContext api tr cfg ident = Inl e \<and> (\<forall>m. e \<noteq> AwsErr InstanceNotFound m)"
  then show d: "DescribeInstance api cfg ident tr = (Err (Backend e), tr @ [DescribeInstancesCall cfg ident])"
    by (simp add: DescribeInstance_error)
  then show "DescribeInstanceStatus api cfg ident tr
            = (Err (Backend e), tr @ [DescribeInstancesCall cfg ident])"
    by (simp add: DescribeInstanceStatus_def)
qed

theorem describe_not_found_is_a_value_witness:
  "DescribeInstance backend_not_found east_1 ''i-0abc'' []
     = (Ok (None, False), [DescribeInstancesCall east_1 ''i-0abc''])
   \<and> DescribeInstanceStatus backend_not_found east_1 ''i-0abc'' []
     = (Ok ''terminated'', [DescribeInstancesCall east_1 ''i-0abc''])
   \<and> DescribeInstance backend_failing east_1 ''i-0abc'' []
     = (Err (Backend (AwsErr ''RequestLimitExceeded'' ''slow down'')), [DescribeInstancesCall east_1 ''i-0abc''])
   \<and> DescribeInstanceStatus backend_failing east_1 ''i-0abc'' []
     = (Err (Backend (AwsErr ''RequestLimitExceeded'' ''slow down'')), [DescribeInstancesCall east_1 ''i-0abc''])"
proof -
  have a: "DescribeInstancesWithContext backend_not_found [] east_1 ''i-0abc''
             = Inl (AwsErr InstanceNotFound ''no such instance'')"
    by (simp add: backend_not_found_def fixed_backend_def)
  have b: "DescribeInstancesWithContext backend_failing [] east_1 ''i-0abc''
             = Inl (AwsErr ''RequestLimitExceeded'' ''slow down'')
           \<and> (\<forall>m. AwsErr ''RequestLimitExceeded'' ''slow down'' \<noteq> AwsErr InstanceNotFound m)"
    by (simp add: backend_failing_def fixed_backend_def InstanceNotFound_def)
  from a b
    describe_not_found_is_a_value [of backend_not_found "[]" east_1 "''i-0abc''" "''no such instance''"]
    describe_not_found_is_a_value [of backend_failing "[]" east_1 "''i-0abc''" _ _
      "AwsErr ''RequestLimitExceeded'' ''slow down''"]
  show ?thesis
    by (simp add: InstanceStateNameTerminated_def)
qed



lemma LaunchInstance_subnet_names:
  "LaunchInstance_subnet api rt cfg (m\<lparr>Spec := (Spec m)\<lparr>SecurityGroupNames := ns\<rparr>\<rparr>) input tr
     = LaunchInstance_subnet api rt cfg m input tr"
  by (simp add: LaunchInstance_subnet_def subnet_filters_def Let_def split del: if_split
      cong: sum.case_cong res.case_cong list.case_cong if_cong)

lemma launch_input_names:
  "launch_input (m\<lparr>Spec := (Spec m)\<lparr>SecurityGroupNames := ns\<rparr>\<rparr>) userData = launch_input m userData"
  by (simp add: launch_input_def)

lemma LaunchInstance_names_unresolved:
  assumes "SecurityGroupNames (Spec m) \<noteq> []"
    and "DescribeSecurityGroupsWithContext api tr cfg (SecurityGroupNames (Spec m)) = Inr []"
  shows "LaunchInstance api rt cfg m userData tr =
           LaunchInstance api rt cfg (m\<lparr>Spec := (Spec m)\<lparr>SecurityGroupNames := []\<rparr>\<rparr>) userData
             (tr @ [DescribeSecurityGroupsCall cfg (SecurityGroupNames (Spec m))])"
proof -
  have "LaunchInstance api rt cfg m userData tr =
          LaunchInstance_subnet api rt cfg m (launch_input m userData)
            (tr @ [DescribeSecurityGroupsCall cfg (SecurityGroupNames (Spec m))])"
    using assms by (simp add: LaunchInstance_def Let_def)
  moreover have "LaunchInstance api rt cfg (m\<lparr>Spec := (Spec m)\<lparr>SecurityGroupNames := []\<rparr>\<rparr>) userData
             (tr @ [DescribeSecurityGroupsCall cfg (SecurityGroupNames (Spec m))]) =
          LaunchInstance_subnet api rt cfg m (launch_input m userData)
            (tr @ [DescribeSecurityGroupsCall cfg (SecurityGroupNames (Spec m))])"
    by (simp add: LaunchInstance_def Let_def LaunchInstance_subnet_names launch_input_names)
  ultimately show ?thesis by simp
qed

lemma LaunchInstance_lookup_error:
  assumes "SecurityGroupNames (Spec m) \<noteq> []"
    and "DescribeSecurityGroupsWithContext api tr cfg (SecurityGroupNames (Spec m)) = Inl e"
  shows "LaunchInstance api rt cfg m userData tr =
           (Err (Backend e), tr @ [DescribeSecurityGroupsCall cfg (SecurityGroupNames (Spec m))])"
  using assms by (simp add: LaunchInstance_def Let_def)

lemma LaunchInstance_subnet_trace:
  "\<exists>evs. snd (LaunchInstance_subnet api rt cfg m input tr) = tr @ evs
     \<and> filter is_DescribeSecurityGroupsCall evs = []"
proof -
  define tr1 where "tr1 = tr @ [DescribeSubnetsCall cfg (subnet_filters m)]"
  have "snd (LaunchInstance_subnet api rt cfg m input tr) = tr1
      \<or> (\<exists>input1. snd (LaunchInstance_subnet api rt cfg m input tr) = tr1 @ [RunInstancesCall cfg input1])"
    unfolding LaunchInstance_subnet_def Let_def tr1_def
    by (simp split: sum.split list.split res.split)
  then show ?thesis
    unfolding tr1_def by auto
qed

lemma LaunchInstance_no_names:
  assumes "SecurityGroupNames (Spec m) = []"
  shows "filter is_DescribeSecurityGroupsCall (snd (LaunchInstance api rt cfg m userData tr))
           = filter is_DescribeSecurityGroupsCall tr"
proof -
  have "LaunchInstance api rt cfg m userData tr
          = LaunchInstance_subnet api rt cfg m (launch_input m userData) tr"
    using assms by (simp add: LaunchInstance_def Let_def)
  moreover obtain evs where
    "snd (LaunchInstance_subnet api rt cfg m (launch_input m userData) tr) = tr @ evs"
    "filter is_DescribeSecurityGroupsCall evs = []"
    using LaunchInstance_subnet_trace by blast
  ultimately show ?thesis by simp
qed

text \<open>
  C8, as the code has it.  Security group names that resolve to nothing do not stop a launch:
  after the lookup the launch goes on exactly as a launch without names, with only the
  configured group ids in the request.  The security-group step fails only with the error
  of the lookup call itself, and the lookup is made only when names were supplied.
\<close>

theorem launch_ignores_unresolved_group_names:
  "(SecurityGroupNames (Spec m) \<noteq> []
      \<and> DescribeSecurityGroupsWithContext api tr cfg (SecurityGroupNames (Spec m)) = Inr []
    \<longrightarrow> LaunchInstance api rt cfg m userData tr =
          LaunchInstance api rt cfg (m\<lparr>Spec := (Spec m)\<lparr>SecurityGroupNames := []\<rparr>\<rparr>) userData
            (tr @ [DescribeSecurityGroupsCall cfg (SecurityGroupNames (Spec m))]))
   \<and> (SecurityGroupNames (Spec m) \<noteq> []
      \<and> DescribeSecurityGroupsWithContext api tr cfg (SecurityGroupNames (Spec m)) = Inl e
    \<longrightarrow> LaunchInstance api rt cfg m userData tr =
          (Err (Backend e), tr @ [DescribeSecurityGroupsCall cfg (SecurityGroupNames (Spec m))]))
   \<and> (SecurityGroupNames (Spec m) = []
    \<longrightarrow> filter is_DescribeSecurityGroupsCall (snd (LaunchInstance api rt cfg m userData tr))
          = filter is_DescribeSecurityGroupsCall tr)"
  using LaunchInstance_names_unresolved [of m api tr cfg rt userData]
    LaunchInstance_lookup_error [of m api tr cfg e rt userData]
    LaunchInstance_no_names [of m api rt cfg userData tr]
  by blast


theorem launch_ignores_unresolved_group_names_witness:
  "LaunchInstance (backend_reporting ''pending'') plain_runtime east_1 named_groups_machine ''data'' []
     = LaunchInstance (backend_reporting ''pending'') plain_runtime east_1
         (named_groups_machine\<lparr>Spec := (Spec named_groups_machine)\<lparr>SecurityGroupNames := []\<rparr>\<rparr>) ''data''
         [DescribeSecurityGroupsCall east_1 [''web'']]
   \<and> LaunchInstance backend_lookup_failing plain_runtime east_1 named_groups_machine ''data'' []
     = (Err (Backend (PlainErr ''timeout'')), [DescribeSecurityGroupsCall east_1 [''web'']])
   \<and> filter is_DescribeSecurityGroupsCall
        (snd (LaunchInstance (backend_reporting ''pending'') plain_runtime east_1
               (machine_record None None []) ''data'' [])) = []"
proof -
  have names: "SecurityGroupNames (Spec named_groups_machine) = [''web'']"
    by (simp add: named_groups_machine_def)
  have none: "DescribeSecurityGroupsWithContext (backend_reporting ''pending'') [] east_1 [''web''] = Inr []"
    by (simp add: backend_reporting_def fixed_backend_def)
  have failing: "DescribeSecurityGroupsWithContext backend_lookup_failing [] east_1 [''web'']
      = Inl (PlainErr ''timeout'')"
    by (simp add: backend_lookup_failing_def fixed_backend_def)
  have unnamed: "SecurityGroupNames (Spec (machine_record None None [])) = []"
    by (simp add: machine_record_def emptySpec_def)
  from names none failing unnamed
    launch_ignores_unresolved_group_names [where m = named_groups_machine
      and api = "backend_reporting ''pending''" and tr = "[]" and cfg = east_1
      and rt = plain_runtime and userData = "''data''"]
    launch_ignores_unresolved_group_names [where m = named_groups_machine
      and api = backend_lookup_failing and tr = "[]" and cfg = east_1
      and e = "PlainErr ''timeout''" and rt = plain_runtime and userData = "''data''"]
    launch_ignores_unresolved_group_names [where m = "machine_record None None []"
      and api = "backend_reporting ''pending''" and tr = "[]" and cfg = east_1
      and rt = plain_runtime and userData = "''data''"]
  show ?thesis by simp
qed

text \<open>
  C8 as stated fails: names were supplied, none resolved, and the launch succeeds.
\<close>

theorem launch_succeeds_without_resolved_groups:
  "SecurityGroupNames (Spec named_groups_machine) = [''web'']
   \<and> DescribeSecurityGroupsWithContext (backend_reporting ''pending'') [] east_1 [''web''] = Inr []
   \<and> fst (LaunchInstance (backend_reporting ''pending'') plain_runtime east_1 named_groups_machine ''data'' [])
       = Ok (instance_in_state ''pending'')"
  by (simp add: named_groups_machine_def machine_record_def emptySpec_def backend_reporting_def
      fixed_backend_def LaunchInstance_def LaunchInstance_subnet_def Let_def random_def
      plain_runtime_def BoolValue_def Int64Value_def StringValue_def)


section \<open>Deletion protocol: properties\<close>

lemma TerminateInstance_eq:
  "TerminateInstance api cfg ident tr =
     ((case TerminateInstances api tr cfg ident of None \<Rightarrow> Ok () | Some e \<Rightarrow> Err (Backend e)),
      tr @ [TerminateInstancesCall cfg ident])"
  by (simp add: TerminateInstance_def split: option.splits)

lemma reconcileDelete_described:
  assumes "ProviderID (Spec am) = Some s" and "ParseProviderID s = Ok p"
    and "DescribeInstanceStatus api \<lparr>CfgRegion = Region p, CfgCredentials = None\<rparr> (InstanceID p) tr
           = (Ok state, tr1)"
  shows "reconcileDelete api am tr =
     (if state = InstanceStateNamePending then
        (Err (RequeueAfterError 10 WaitPending (Name (ObjectMeta am))), tr1)
      else if state = InstanceStateNameStopping then
        (Err (RequeueAfterError 10 WaitStopping (Name (ObjectMeta am))), tr1)
      else if state = InstanceStateNameRunning \<or> state = InstanceStateNameStopped then
        ((case TerminateInstances api tr1 \<lparr>CfgRegion = Region p, CfgCredentials = None\<rparr> (InstanceID p) of
            None \<Rightarrow> Err (RequeueAfterError 10 WaitTerminating (Name (ObjectMeta am)))
          | Some e \<Rightarrow> Err (Backend e)),
         tr1 @ [TerminateInstancesCall \<lparr>CfgRegion = Region p, CfgCredentials = None\<rparr> (InstanceID p)])
      else if state = InstanceStateNameShuttingDown then
        (Err (RequeueAfterError 10 WaitTerminating (Name (ObjectMeta am))), tr1)
      else if state = InstanceStateNameTerminated then (Ok (), tr1)
      else (Err (UnknownState (Name (ObjectMeta am)) state), tr1))"
  using assms
  by (simp add: reconcileDelete_def Let_def TerminateInstance_eq split: option.splits)

text \<open>
  C5.  Once the stored identity has parsed and the state has been described, the deletion
  protocol answers by the state alone.  For \<open>pending\<close>, \<open>stopping\<close> and \<open>shutting-down\<close>
  it returns the requeue-after error of 10 seconds and calls nothing more.  For \<open>running\<close>
  and \<open>stopped\<close> it makes exactly one terminate call and then returns the same requeue
  (the error of the terminate call, should that call fail).  For \<open>terminated\<close> it returns
  success and calls nothing more.  For any other state it returns the error that names the
  state, which is not a requeue.
\<close>

theorem reconcileDelete_state_mapping:
  assumes "ProviderID (Spec am) = Some s" and "ParseProviderID s = Ok p"
    and "cfg = \<lparr>CfgRegion = Region p, CfgCredentials = None\<rparr>"
    and "DescribeInstanceStatus api cfg (InstanceID p) tr = (Ok state, tr1)"
  shows "tr1 = tr @ [DescribeInstancesCall cfg (InstanceID p)]
   \<and> (state \<in> {InstanceStateNamePending, InstanceStateNameStopping, InstanceStateNameShuttingDown}
        \<longrightarrow> (\<exists>why. reconcileDelete api am tr = (Err (RequeueAfterError 10 why (Name (ObjectMeta am))), tr1)))
   \<and> (state \<in> {InstanceStateNameRunning, InstanceStateNameStopped}
        \<longrightarrow> snd (reconcileDelete api am tr) = tr1 @ [TerminateInstancesCall cfg (InstanceID p)]
          \<and> fst (reconcileDelete api am tr) =
              (case TerminateInstances api tr1 cfg (InstanceID p) of
                 None \<Rightarrow> Err (RequeueAfterError 10 WaitTerminating (Name (ObjectMeta am)))
               | Some e \<Rightarrow> Err (Backend e)))
   \<and> (state = InstanceStateNameTerminated \<longrightarrow> reconcileDelete api am tr = (Ok (), tr1))
   \<and> (state \<notin> {InstanceStateNamePending, InstanceStateNameStopping, InstanceStateNameShuttingDown,
                 InstanceStateNameRunning, InstanceStateNameStopped, InstanceStateNameTerminated}
        \<longrightarrow> reconcileDelete api am tr = (Err (UnknownState (Name (ObjectMeta am)) state), tr1))"
proof -
  have tr1: "tr1 = tr @ [DescribeInstancesCall cfg (InstanceID p)]"
    using DescribeInstanceStatus_trace [of api cfg "InstanceID p" tr] assms(4) by simp
  have eq: "reconcileDelete api am tr =
     (if state = InstanceStateNamePending then
        (Err (RequeueAfterError 10 WaitPending (Name (ObjectMeta am))), tr1)
      else if state = InstanceStateNameStopping then
        (Err (RequeueAfterError 10 WaitStopping (Name (ObjectMeta am))), tr1)
      else if state = InstanceStateNameRunning \<or> state = InstanceStateNameStopped then
        ((case TerminateInstances api tr1 cfg (InstanceID p) of
            None \<Rightarrow> Err (RequeueAfterError 10 WaitTerminating (Name (ObjectMeta am)))
          | Some e \<Rightarrow> Err (Backend e)),
         tr1 @ [TerminateInstancesCall cfg (InstanceID p)])
      else if state = InstanceStateNameShuttingDown then
        (Err (RequeueAfterError 10 WaitTerminating (Name (ObjectMeta am))), tr1)
      else if state = InstanceStateNameTerminated then (Ok (), tr1)
      else (Err (UnknownState (Name (ObjectMeta am)) state), tr1))"
    using reconcileDelete_described [of am s p api tr state tr1] assms by simp
  show ?thesis
    unfolding eq using tr1 by (auto simp: state_names)
qed

theorem reconcileDelete_state_mapping_witness:
  "reconcileDelete (backend_reporting ''running'')
      (machine_record (Some ''aws:///us-east-1a/i-0abc'') (Some 1) [MachineFinalizer]) []
     = (Err (RequeueAfterError 10 WaitTerminating ''worker-0''),
        [DescribeInstancesCall east_1 ''i-0abc'', TerminateInstancesCall east_1 ''i-0abc''])
   \<and> (\<exists>why. reconcileDelete (backend_reporting ''pending'')
      (machine_record (Some ''aws:///us-east-1a/i-0abc'') (Some 1) [MachineFinalizer]) []
     = (Err (RequeueAfterError 10 why ''worker-0''), [DescribeInstancesCall east_1 ''i-0abc'']))
   \<and> reconcileDelete (backend_reporting ''terminated'')
      (machine_record (Some ''aws:///us-east-1a/i-0abc'') (Some 1) [MachineFinalizer]) []
     = (Ok (), [DescribeInstancesCall east_1 ''i-0abc''])
   \<and> reconcileDelete (backend_reporting ''rebooting'')
      (machine_record (Some ''aws:///us-east-1a/i-0abc'') (Some 1) [MachineFinalizer]) []
     = (Err (UnknownState ''worker-0'' ''rebooting''), [DescribeInstancesCall east_1 ''i-0abc''])"
proof -
  let ?am = "machine_record (Some ''aws:///us-east-1a/i-0abc'') (Some 1) [MachineFinalizer]"
  let ?p = "\<lparr>AvailabilityZone = ''us-east-1a'', Region = ''us-east-1'', InstanceID = ''i-0abc''\<rparr>"
  have pid: "ProviderID (Spec ?am) = Some ''aws:///us-east-1a/i-0abc''"
    by (simp add: machine_record_def emptySpec_def)
  have parse: "ParseProviderID ''aws:///us-east-1a/i-0abc'' = Ok ?p"
    by (simp add: ParseProviderID_def VerifyProviderID_def providerIDRegex_def Plus_def Let_def
        ParseRegionFromAZ_def re_def)
  have cfg: "east_1 = \<lparr>CfgRegion = Region ?p, CfgCredentials = None\<rparr>"
    by (simp add: east_1_def)
  have st: "DescribeInstanceStatus (backend_reporting x) east_1 (InstanceID ?p) []
              = (Ok x, [DescribeInstancesCall east_1 ''i-0abc''])" for x
    by (simp add: DescribeInstanceStatus_def DescribeInstance_def backend_reporting_def
        fixed_backend_def instance_in_state_def StringValue_def)
  have name: "Name (ObjectMeta (machine_record a b c)) = ''worker-0''" for a b c
    by (simp add: machine_record_def)
  have quiet: "TerminateInstances (backend_reporting x) tr c i = None" for x tr c i
    by (simp add: backend_reporting_def fixed_backend_def)
  have running: "reconcileDelete (backend_reporting ''running'') ?am []
     = (Err (RequeueAfterError 10 WaitTerminating ''worker-0''),
        [DescribeInstancesCall east_1 ''i-0abc'', TerminateInstancesCall east_1 ''i-0abc''])"
  proof -
    from reconcileDelete_state_mapping [OF pid parse cfg st, of "''running''"]
    have "snd (reconcileDelete (backend_reporting ''running'') ?am [])
            = [DescribeInstancesCall east_1 ''i-0abc'', TerminateInstancesCall east_1 ''i-0abc'']
          \<and> fst (reconcileDelete (backend_reporting ''running'') ?am [])
            = Err (RequeueAfterError 10 WaitTerminating ''worker-0'')"
      by (simp add: state_names name quiet)
    then show ?thesis
      by (cases "reconcileDelete (backend_reporting ''running'') ?am []") simp
  qed
  have pending: "\<exists>why. reconcileDelete (backend_reporting ''pending'') ?am []
     = (Err (RequeueAfterError 10 why ''worker-0''), [DescribeInstancesCall east_1 ''i-0abc''])"
    using reconcileDelete_state_mapping [OF pid parse cfg st, of "''pending''"]
    by (simp add: state_names name)
  have terminated: "reconcileDelete (backend_reporting ''terminated'') ?am []
     = (Ok (), [DescribeInstancesCall east_1 ''i-0abc''])"
    using reconcileDelete_state_mapping [OF pid parse cfg st, of "''terminated''"]
    by (simp add: state_names name)
  have unknown: "reconcileDelete (backend_reporting ''rebooting'') ?am []
     = (Err (UnknownState ''worker-0'' ''rebooting''), [DescribeInstancesCall east_1 ''i-0abc''])"
    using reconcileDelete_state_mapping [OF pid parse cfg st, of "''rebooting''"]
    by (simp add: state_names name)
  from running pending terminated unknown show ?thesis
    by blast
qed


section \<open>Lifecycle reconciler: properties\<close>

lemma DescribeInstance_traceD:
  "DescribeInstance api cfg ident tr = (r, tr1) \<Longrightarrow> tr1 = tr @ [DescribeInstancesCall cfg ident]"
  using DescribeInstance_trace [of api cfg ident tr] by simp

lemma DescribeInstanceStatus_traceD:
  "DescribeInstanceStatus api cfg ident tr = (r, tr1) \<Longrightarrow> tr1 = tr @ [DescribeInstancesCall cfg ident]"
  using DescribeInstanceStatus_trace [of api cfg ident tr] by simp

lemma getInstanceAddresses_nil: "getInstanceAddresses None = Panic"
  by (simp add: getInstanceAddresses_def)

lemma reconcileStatus_keeps:
  assumes "reconcileStatus api am tr = (r, am1, tr1)"
  shows "Spec am1 = Spec am \<and> ObjectMeta am1 = ObjectMeta am
         \<and> FailureMessage (Status am1) = FailureMessage (Status am)
         \<and> FailureReason (Status am1) = FailureReason (Status am)
         \<and> (\<exists>evs. tr1 = tr @ evs \<and> list_all is_DescribeInstancesCall evs)"
proof (cases "ProviderID (Spec am)")
  case None
  with assms show ?thesis by (simp add: reconcileStatus_def)
next
  case (Some s)
  show ?thesis
  proof (cases "ParseProviderID s")
    case (Ok p)
    let ?cfg = "\<lparr>CfgRegion = Region p, CfgCredentials = None\<rparr>"
    obtain r1 t1 where d1: "DescribeInstanceStatus api ?cfg (InstanceID p) tr = (r1, t1)"
      by (cases "DescribeInstanceStatus api ?cfg (InstanceID p) tr")
    then have t1: "t1 = tr @ [DescribeInstancesCall ?cfg (InstanceID p)]"
      by (rule DescribeInstanceStatus_traceD)
    obtain r2 t2 where d2: "DescribeInstance api ?cfg (InstanceID p) t1 = (r2, t2)"
      by (cases "DescribeInstance api ?cfg (InstanceID p) t1")
    then have t2: "t2 = t1 @ [DescribeInstancesCall ?cfg (InstanceID p)]"
      by (rule DescribeInstance_traceD)
    from assms Some Ok d1 d2 t1 t2 show ?thesis
      by (auto simp: reconcileStatus_def Let_def split: res.splits if_splits prod.splits)
  next
    case (Err e)
    with assms Some show ?thesis by (simp add: reconcileStatus_def)
  next
    case Panic
    with assms Some show ?thesis by (simp add: reconcileStatus_def)
  qed
qed

lemma Reconcile_body_provisioned:
  assumes "ProviderID (Spec am) \<noteq> None"
    and "Reconcile_body c rt api m am tr = (out, am1, tr1)"
  shows "Spec am1 = Spec am \<and> ObjectMeta am1 = ObjectMeta am
         \<and> FailureMessage (Status am1) = FailureMessage (Status am)
         \<and> FailureReason (Status am1) = FailureReason (Status am)
         \<and> (\<exists>evs. tr1 = tr @ evs \<and> list_all is_DescribeInstancesCall evs)"
proof -
  obtain r a t where rs: "reconcileStatus api am tr = (r, a, t)"
    by (cases "reconcileStatus api am tr")
  with assms have "am1 = a" "tr1 = t"
    by (auto simp: Reconcile_body_def split: res.splits)
  with reconcileStatus_keeps [OF rs] show ?thesis by simp
qed

lemma AddFinalizer_keeps:
  "Spec (AddFinalizer am f) = Spec am" "Status (AddFinalizer am f) = Status am"
  "DeletionTimestamp (ObjectMeta (AddFinalizer am f)) = DeletionTimestamp (ObjectMeta am)"
  "Name (ObjectMeta (AddFinalizer am f)) = Name (ObjectMeta am)"
  "f \<in> set (Finalizers (ObjectMeta (AddFinalizer am f)))"
  "AddFinalizer (AddFinalizer am f) f = AddFinalizer am f"
  by (simp_all add: AddFinalizer_def)

text \<open>One invocation on a provisioned record that is neither deleted nor failed.\<close>

lemma Reconcile_provisioned:
  assumes "obj w = Some am" and "ProviderID (Spec am) \<noteq> None"
    and "IsZero (DeletionTimestamp (ObjectMeta am))" and "FailureMessage (Status am) = None"
  shows "\<exists>am1 evs. obj (snd (Reconcile c rt api w)) = Some am1
           \<and> Spec am1 = Spec am
           \<and> (ObjectMeta am1 = ObjectMeta am \<or> ObjectMeta am1 = ObjectMeta (AddFinalizer am MachineFinalizer))
           \<and> FailureMessage (Status am1) = None
           \<and> FailureReason (Status am1) = FailureReason (Status am)
           \<and> trace (snd (Reconcile c rt api w)) = trace w @ evs
           \<and> list_all is_DescribeInstancesCall evs"
proof -
  have same: "\<exists>am1 evs. obj w = Some am1
           \<and> Spec am1 = Spec am
           \<and> (ObjectMeta am1 = ObjectMeta am \<or> ObjectMeta am1 = ObjectMeta (AddFinalizer am MachineFinalizer))
           \<and> FailureMessage (Status am1) = None
           \<and> FailureReason (Status am1) = FailureReason (Status am)
           \<and> trace w = trace w @ evs
           \<and> list_all is_DescribeInstancesCall evs"
    using assms by (intro exI[of _ am] exI[of _ "[]"]) simp
  show ?thesis
  proof (cases "Get_err c = None \<and> (\<exists>m. GetOwnerMachine c (ObjectMeta am) = Inr (Some m))
                  \<and> NewHelper_err c = None")
    case False
    then have "snd (Reconcile c rt api w) = w"
      using assms by (auto simp: Reconcile_def split: option.splits sum.splits)
    with same show ?thesis by simp
  next
    case True
    then obtain m where m: "GetOwnerMachine c (ObjectMeta am) = Inr (Some m)" by blast
    let ?am0 = "AddFinalizer am MachineFinalizer"
    obtain out am1 tr1 where b: "Reconcile_body c rt api m ?am0 (trace w) = (out, am1, tr1)"
      by (cases "Reconcile_body c rt api m ?am0 (trace w)")
    have "ProviderID (Spec ?am0) \<noteq> None" using assms(2) by (simp add: AddFinalizer_keeps)
    from Reconcile_body_provisioned [OF this b] obtain evs where
      k: "Spec am1 = Spec am" "ObjectMeta am1 = ObjectMeta ?am0"
         "FailureMessage (Status am1) = None"
         "FailureReason (Status am1) = FailureReason (Status am)"
         "tr1 = trace w @ evs" "list_all is_DescribeInstancesCall evs"
      using assms(4) by (auto simp: AddFinalizer_keeps)
    have r: "Reconcile c rt api w = deferred_patch c out am1 w tr1"
      using True m assms b by (simp add: Reconcile_def)
    show ?thesis
    proof (cases "Patch_err c")
      case None
      then have "snd (Reconcile c rt api w) = \<lparr>obj = Some am1, trace = tr1\<rparr>"
        by (simp add: r deferred_patch_def)
      with k show ?thesis by simp
    next
      case (Some e)
      then have "snd (Reconcile c rt api w) = \<lparr>obj = obj w, trace = tr1\<rparr>"
        by (simp add: r deferred_patch_def)
      with k assms show ?thesis by simp
    qed
  qed
qed

lemma Reconcile_many_provisioned:
  assumes "obj w = Some am" and "ProviderID (Spec am) \<noteq> None"
    and "IsZero (DeletionTimestamp (ObjectMeta am))" and "FailureMessage (Status am) = None"
  shows "\<exists>am1 evs. obj (Reconcile_many envs api w) = Some am1
           \<and> Spec am1 = Spec am
           \<and> (ObjectMeta am1 = ObjectMeta am \<or> ObjectMeta am1 = ObjectMeta (AddFinalizer am MachineFinalizer))
           \<and> FailureMessage (Status am1) = None
           \<and> FailureReason (Status am1) = FailureReason (Status am)
           \<and> trace (Reconcile_many envs api w) = trace w @ evs
           \<and> list_all is_DescribeInstancesCall evs"
  using assms
proof (induction envs arbitrary: w am)
  case Nil
  then show ?case by (intro exI[of _ am] exI[of _ "[]"]) simp
next
  case (Cons env envs)
  obtain c rt where env: "env = (c, rt)" by (cases env)
  let ?w1 = "snd (Reconcile c rt api w)"
  from Reconcile_provisioned [OF Cons.prems, of c rt api] obtain am1 evs1 where
    s1: "obj ?w1 = Some am1" "Spec am1 = Spec am"
        "ObjectMeta am1 = ObjectMeta am \<or> ObjectMeta am1 = ObjectMeta (AddFinalizer am MachineFinalizer)"
        "FailureMessage (Status am1) = None"
        "FailureReason (Status am1) = FailureReason (Status am)"
        "trace ?w1 = trace w @ evs1" "list_all is_DescribeInstancesCall evs1"
    by blast
  have p1: "ProviderID (Spec am1) \<noteq> None" using s1(2) Cons.prems(2) by simp
  have z1: "IsZero (DeletionTimestamp (ObjectMeta am1))"
    using s1(3) Cons.prems(3) by (auto simp: AddFinalizer_keeps)
  from Cons.IH [OF s1(1) p1 z1 s1(4)] obtain am2 evs2 where
    s2: "obj (Reconcile_many envs api ?w1) = Some am2" "Spec am2 = Spec am1"
        "ObjectMeta am2 = ObjectMeta am1 \<or> ObjectMeta am2 = ObjectMeta (AddFinalizer am1 MachineFinalizer)"
        "FailureMessage (Status am2) = None"
        "FailureReason (Status am2) = FailureReason (Status am1)"
        "trace (Reconcile_many envs api ?w1) = trace ?w1 @ evs2" "list_all is_DescribeInstancesCall evs2"
    by blast
  have meta: "ObjectMeta am2 = ObjectMeta am \<or> ObjectMeta am2 = ObjectMeta (AddFinalizer am MachineFinalizer)"
    using s1(3) s2(3) by (auto simp: AddFinalizer_def)
  have "trace (Reconcile_many envs api ?w1) = trace w @ (evs1 @ evs2)"
    "list_all is_DescribeInstancesCall (evs1 @ evs2)"
    using s1 s2 by simp_all
  with s2 s1 meta show ?case
    unfolding env Reconcile_many.simps
    by (intro exI[of _ am2] exI[of _ "evs1 @ evs2"]) simp
qed


subsection \<open>Facts about the concrete environments\<close>

lemma example_parse:
  "ParseProviderID ''aws:///us-east-1a/i-0abc''
     = Ok \<lparr>AvailabilityZone = ''us-east-1a'', Region = ''us-east-1'', InstanceID = ''i-0abc''\<rparr>"
  by (simp add: ParseProviderID_def VerifyProviderID_def providerIDRegex_def Plus_def Let_def
      ParseRegionFromAZ_def re_def)

lemma example_status:
  "DescribeInstanceStatus (backend_reporting x) \<lparr>CfgRegion = ''us-east-1'', CfgCredentials = None\<rparr> ''i-0abc'' tr
     = (Ok x, tr @ [DescribeInstancesCall east_1 ''i-0abc''])"
  by (simp add: DescribeInstanceStatus_def DescribeInstance_def backend_reporting_def
      fixed_backend_def instance_in_state_def StringValue_def east_1_def)


lemma Reconcile_deleting:
  assumes "Get_err c = None" and "obj w = Some am"
    and "\<not> IsZero (DeletionTimestamp (ObjectMeta am))"
    and "reconcileDelete api am (trace w) = (r, tr1)" and "r \<noteq> Panic"
    and "Update_err c = None"
  shows "Reconcile c rt api w =
           (Returned NoRequeue None, \<lparr>obj = Some (RemoveFinalizer am MachineFinalizer), trace = tr1\<rparr>)"
  using assms by (cases r) (simp_all add: Reconcile_def)

text \<open>
  C1 at a concrete input.  The record carries the deletion marker and the finalizer, and the
  backend reports the instance \<open>running\<close>.  The invocation makes one terminate call, drops
  the requeue that the deletion protocol asked for, removes the finalizer and stores the
  record, all in the same invocation.
\<close>

theorem delete_running_removes_finalizer:
  "DescribeInstanceStatus (backend_reporting ''running'') east_1 ''i-0abc'' []
     = (Ok InstanceStateNameRunning, [DescribeInstancesCall east_1 ''i-0abc''])
   \<and> reconcileDelete (backend_reporting ''running'')
        (machine_record (Some ''aws:///us-east-1a/i-0abc'') (Some 1) [MachineFinalizer]) []
     = (Err (RequeueAfterError 10 WaitTerminating ''worker-0''),
        [DescribeInstancesCall east_1 ''i-0abc'', TerminateInstancesCall east_1 ''i-0abc''])
   \<and> Reconcile good_client plain_runtime (backend_reporting ''running'')
        \<lparr>obj = Some (machine_record (Some ''aws:///us-east-1a/i-0abc'') (Some 1) [MachineFinalizer]),
         trace = []\<rparr>
     = (Returned NoRequeue None,
        \<lparr>obj = Some (machine_record (Some ''aws:///us-east-1a/i-0abc'') (Some 1) []),
         trace = [DescribeInstancesCall east_1 ''i-0abc'', TerminateInstancesCall east_1 ''i-0abc'']\<rparr>)
   \<and> length (filter is_TerminateInstancesCall
        [DescribeInstancesCall east_1 ''i-0abc'', TerminateInstancesCall east_1 ''i-0abc'']) = 1
   \<and> MachineFinalizer \<notin> set (Finalizers (ObjectMeta
        (machine_record (Some ''aws:///us-east-1a/i-0abc'') (Some 1) [])))"
proof -
  let ?am = "machine_record (Some ''aws:///us-east-1a/i-0abc'') (Some 1) [MachineFinalizer]"
  let ?w = "\<lparr>obj = Some ?am, trace = []\<rparr>"
  let ?api = "backend_reporting ''running''"
  have st: "DescribeInstanceStatus ?api east_1 ''i-0abc'' []
     = (Ok InstanceStateNameRunning, [DescribeInstancesCall east_1 ''i-0abc''])"
    using example_status [of "''running''" "[]"]
    by (simp add: east_1_def InstanceStateNameRunning_def)
  have pid: "ProviderID (Spec ?am) = Some ''aws:///us-east-1a/i-0abc''"
    by (simp add: machine_record_def emptySpec_def)
  have st': "DescribeInstanceStatus ?api
      \<lparr>CfgRegion = Region \<lparr>AvailabilityZone = ''us-east-1a'', Region = ''us-east-1'', InstanceID = ''i-0abc''\<rparr>,
        CfgCredentials = None\<rparr>
      (InstanceID \<lparr>AvailabilityZone = ''us-east-1a'', Region = ''us-east-1'', InstanceID = ''i-0abc''\<rparr>) []
     = (Ok ''running'', [DescribeInstancesCall east_1 ''i-0abc''])"
    using example_status [of "''running''" "[]"] by simp
  have quiet: "TerminateInstances ?api tr cfg i = None" for tr cfg i
    by (simp add: backend_reporting_def fixed_backend_def)
  have name: "Name (ObjectMeta (machine_record a b c)) = ''worker-0''" for a b c
    by (simp add: machine_record_def)
  have rd: "reconcileDelete ?api ?am []
     = (Err (RequeueAfterError 10 WaitTerminating ''worker-0''),
        [DescribeInstancesCall east_1 ''i-0abc'', TerminateInstancesCall east_1 ''i-0abc''])"
    unfolding reconcileDelete_described [OF pid example_parse st']
    by (simp add: state_names name quiet east_1_def)
  have 1: "Get_err good_client = None" "Update_err good_client = None"
    by (simp_all add: good_client_def)
  have 3: "\<not> IsZero (DeletionTimestamp (ObjectMeta ?am))"
    by (simp add: machine_record_def IsZero_def)
  have 4: "RemoveFinalizer ?am MachineFinalizer = machine_record (Some ''aws:///us-east-1a/i-0abc'') (Some 1) []"
    by (simp add: machine_record_def RemoveFinalizer_def)
  have "Reconcile good_client plain_runtime ?api ?w =
          (Returned NoRequeue None,
           \<lparr>obj = Some (RemoveFinalizer ?am MachineFinalizer),
            trace = [DescribeInstancesCall east_1 ''i-0abc'', TerminateInstancesCall east_1 ''i-0abc'']\<rparr>)"
  proof (rule Reconcile_deleting [OF 1(1) _ 3 _ _ 1(2)])
    show "obj ?w = Some ?am" by simp
    show "reconcileDelete ?api ?am (trace ?w)
            = (Err (RequeueAfterError 10 WaitTerminating ''worker-0''),
               [DescribeInstancesCall east_1 ''i-0abc'', TerminateInstancesCall east_1 ''i-0abc''])"
      using rd by simp
    show "Err (RequeueAfterError 10 WaitTerminating ''worker-0'') \<noteq> Panic" by simp
  qed
  moreover have "MachineFinalizer \<notin> set (Finalizers (ObjectMeta
        (machine_record (Some ''aws:///us-east-1a/i-0abc'') (Some 1) [])))"
    by (simp add: machine_record_def)
  ultimately show ?thesis using st rd 4 by simp
qed


lemma describe_calls_are_not_launches:
  "list_all is_DescribeInstancesCall evs \<Longrightarrow> filter is_RunInstancesCall evs = []"
proof (induction evs)
  case Nil
  show ?case by simp
next
  case (Cons e evs)
  then show ?case by (cases e) simp_all
qed

text \<open>
  C4.  A record whose provider identity is set, which carries no deletion marker and no
  failure message, is reconciled any number of times, whatever the cluster client and the
  backend answer each time.  The stored record keeps its provider identity (its whole spec);
  its metadata changes at most by the finalizer; every backend call made is a describe call,
  so none is a launch.
\<close>

theorem provisioned_record_never_relaunched:
  assumes "obj w = Some am" and "ProviderID (Spec am) = Some pid"
    and "IsZero (DeletionTimestamp (ObjectMeta am))" and "FailureMessage (Status am) = None"
  shows "\<exists>am1 evs. obj (Reconcile_many envs api w) = Some am1
           \<and> ProviderID (Spec am1) = Some pid
           \<and> Spec am1 = Spec am
           \<and> (ObjectMeta am1 = ObjectMeta am \<or> ObjectMeta am1 = ObjectMeta (AddFinalizer am MachineFinalizer))
           \<and> trace (Reconcile_many envs api w) = trace w @ evs
           \<and> list_all is_DescribeInstancesCall evs
           \<and> filter is_RunInstancesCall evs = []"
proof -
  have "ProviderID (Spec am) \<noteq> None" using assms(2) by simp
  from Reconcile_many_provisioned [OF assms(1) this assms(3) assms(4), of envs api]
  obtain am1 evs where
    k: "obj (Reconcile_many envs api w) = Some am1" "Spec am1 = Spec am"
       "ObjectMeta am1 = ObjectMeta am \<or> ObjectMeta am1 = ObjectMeta (AddFinalizer am MachineFinalizer)"
       "trace (Reconcile_many envs api w) = trace w @ evs" "list_all is_DescribeInstancesCall evs"
    by blast
  from k(5) have "filter is_RunInstancesCall evs = []" by (rule describe_calls_are_not_launches)
  with k assms(2) show ?thesis by auto
qed

theorem provisioned_record_never_relaunched_witness:
  "\<exists>am1 evs.
      obj (Reconcile_many [(good_client, plain_runtime), (good_client, plain_runtime)]
             (backend_reporting ''running'')
             \<lparr>obj = Some (machine_record (Some ''aws:///us-east-1a/i-0abc'') None []), trace = []\<rparr>)
        = Some am1
      \<and> ProviderID (Spec am1) = Some ''aws:///us-east-1a/i-0abc''
      \<and> trace (Reconcile_many [(good_client, plain_runtime), (good_client, plain_runtime)]
             (backend_reporting ''running'')
             \<lparr>obj = Some (machine_record (Some ''aws:///us-east-1a/i-0abc'') None []), trace = []\<rparr>)
        = evs
      \<and> filter is_RunInstancesCall evs = []"
proof -
  let ?am = "machine_record (Some ''aws:///us-east-1a/i-0abc'') None []"
  let ?w = "\<lparr>obj = Some ?am, trace = []\<rparr>"
  have 1: "obj ?w = Some ?am" by simp
  have 2: "ProviderID (Spec ?am) = Some ''aws:///us-east-1a/i-0abc''"
    by (simp add: machine_record_def emptySpec_def)
  have 3: "IsZero (DeletionTimestamp (ObjectMeta ?am))"
    by (simp add: machine_record_def IsZero_def)
  have 4: "FailureMessage (Status ?am) = None"
    by (simp add: machine_record_def emptyStatus_def)
  from provisioned_record_never_relaunched [OF 1 2 3 4,
      of "[(good_client, plain_runtime), (good_client, plain_runtime)]" "backend_reporting ''running''"]
  show ?thesis by auto
qed


lemma Reconcile_launch_meta:
  assumes "Reconcile_launch c rt api m cfg am tr = (out, am1, tr1)"
  shows "ObjectMeta am1 = ObjectMeta am"
proof -
  have rs: "ObjectMeta b = ObjectMeta a" if "reconcileStatus api a t = (r, b, t')" for a t r b t'
    using reconcileStatus_keeps [OF that] by simp
  show ?thesis
    using assms
    by (auto simp: Reconcile_launch_def Let_def
        split: option.splits sum.splits res.splits prod.splits dest!: rs)
qed

lemma Reconcile_body_meta:
  assumes "Reconcile_body c rt api m am tr = (out, am1, tr1)"
  shows "ObjectMeta am1 = ObjectMeta am"
proof (cases "ProviderID (Spec am) = None")
  case False
  then show ?thesis
    using Reconcile_body_provisioned [OF _ assms] by simp
next
  case True
  then show ?thesis
    using assms
    by (auto simp: Reconcile_body_def split: sum.splits if_splits dest: Reconcile_launch_meta)
qed

lemma Reconcile_past_checks:
  assumes "Get_err c = None" and "obj w = Some am"
    and "IsZero (DeletionTimestamp (ObjectMeta am))" and "FailureMessage (Status am) = None"
    and "GetOwnerMachine c (ObjectMeta am) = Inr (Some m)"
  shows "(NewHelper_err c = None \<longrightarrow>
           (\<exists>out am1 tr1.
              Reconcile_body c rt api m (AddFinalizer am MachineFinalizer) (trace w) = (out, am1, tr1)
              \<and> Reconcile c rt api w = deferred_patch c out am1 w tr1
              \<and> MachineFinalizer \<in> set (Finalizers (ObjectMeta am1))
              \<and> (Patch_err c = None \<longrightarrow> obj (snd (Reconcile c rt api w)) = Some am1)))
         \<and> (NewHelper_err c \<noteq> None \<longrightarrow> snd (Reconcile c rt api w) = w)
         \<and> (\<forall>r. fst (Reconcile c rt api w) = Returned r None \<longrightarrow>
              (\<exists>am1. obj (snd (Reconcile c rt api w)) = Some am1
                 \<and> MachineFinalizer \<in> set (Finalizers (ObjectMeta am1))))"
proof -
  let ?am0 = "AddFinalizer am MachineFinalizer"
  obtain out am1 tr1 where b: "Reconcile_body c rt api m ?am0 (trace w) = (out, am1, tr1)"
    by (cases "Reconcile_body c rt api m ?am0 (trace w)")
  have fin: "MachineFinalizer \<in> set (Finalizers (ObjectMeta am1))"
    using Reconcile_body_meta [OF b] by (simp add: AddFinalizer_keeps)
  have run: "Reconcile c rt api w = deferred_patch c out am1 w tr1" if "NewHelper_err c = None"
    using assms that b by (simp add: Reconcile_def)
  have stored: "obj (snd (Reconcile c rt api w)) = Some am1"
    if "NewHelper_err c = None" "Patch_err c = None"
    using run that by (simp add: deferred_patch_def)
  have skipped: "Reconcile c rt api w = (Returned NoRequeue (Some (ClientError e)), w)"
    if "NewHelper_err c = Some e" for e
    using assms that by (simp add: Reconcile_def)
  have first: "NewHelper_err c = None \<longrightarrow>
           (\<exists>out am1 tr1.
              Reconcile_body c rt api m ?am0 (trace w) = (out, am1, tr1)
              \<and> Reconcile c rt api w = deferred_patch c out am1 w tr1
              \<and> MachineFinalizer \<in> set (Finalizers (ObjectMeta am1))
              \<and> (Patch_err c = None \<longrightarrow> obj (snd (Reconcile c rt api w)) = Some am1))"
  proof
    assume h: "NewHelper_err c = None"
    have "Reconcile_body c rt api m ?am0 (trace w) = (out, am1, tr1)
           \<and> Reconcile c rt api w = deferred_patch c out am1 w tr1
           \<and> MachineFinalizer \<in> set (Finalizers (ObjectMeta am1))
           \<and> (Patch_err c = None \<longrightarrow> obj (snd (Reconcile c rt api w)) = Some am1)"
      using b fin run [OF h] stored [OF h] by (intro conjI impI)
    then show "\<exists>out am1 tr1.
              Reconcile_body c rt api m ?am0 (trace w) = (out, am1, tr1)
              \<and> Reconcile c rt api w = deferred_patch c out am1 w tr1
              \<and> MachineFinalizer \<in> set (Finalizers (ObjectMeta am1))
              \<and> (Patch_err c = None \<longrightarrow> obj (snd (Reconcile c rt api w)) = Some am1)"
      by (intro exI)
  qed
  have second: "NewHelper_err c \<noteq> None \<longrightarrow> snd (Reconcile c rt api w) = w"
    using skipped by auto
  have third: "\<exists>am1. obj (snd (Reconcile c rt api w)) = Some am1
                 \<and> MachineFinalizer \<in> set (Finalizers (ObjectMeta am1))"
    if ok: "fst (Reconcile c rt api w) = Returned r None" for r
  proof -
    have h: "NewHelper_err c = None"
    proof (cases "NewHelper_err c")
      case None
      then show ?thesis .
    next
      case (Some e)
      with skipped [OF Some] ok show ?thesis by simp
    qed
    have p: "Patch_err c = None"
    proof (cases "Patch_err c")
      case None
      then show ?thesis .
    next
      case (Some e)
      with run [OF h] ok show ?thesis
        by (cases out) (auto simp: deferred_patch_def split: option.splits)
    qed
    from stored [OF h p] fin show ?thesis by blast
  qed
  from first second third show ?thesis by blast
qed


lemma example_first_reconcile:
  "fst (Reconcile good_client plain_runtime (backend_reporting ''running'')
          \<lparr>obj = Some (machine_record None None []), trace = []\<rparr>) = Returned NoRequeue None"
  by (simp add: Reconcile_def Reconcile_body_def Reconcile_launch_def reconcileStatus_def
      LaunchInstance_def LaunchInstance_subnet_def launch_input_def subnet_filters_def
      deferred_patch_def good_client_def plain_runtime_def backend_reporting_def fixed_backend_def
      instance_in_state_def machine_record_def emptySpec_def emptyStatus_def owner_machine_def
      AddFinalizer_def IsZero_def Gzip_def random_def getInstanceAddresses_def formatProviderID_def
      DescribeInstanceStatus_def DescribeInstance_def StringValue_def BoolValue_def Int64Value_def
      example_parse Let_def)

lemma Reconcile_stops_early:
  assumes "Get_err c = None" and "obj w = Some am"
    and "IsZero (DeletionTimestamp (ObjectMeta am))"
    and "FailureMessage (Status am) \<noteq> None \<or> GetOwnerMachine c (ObjectMeta am) = Inr None"
  shows "Reconcile c rt api w = (Returned NoRequeue None, w)"
  using assms by (auto simp: Reconcile_def)

text \<open>
  C6, as the code has it.  An invocation that finds the record with no deletion marker.
  If the record has no failure message and its owner is resolved, then: once the patch
  helper exists, the branches that follow run on the record with the finalizer added, the
  record they end with still carries it, and that record is what the deferred patch writes;
  if the helper cannot be built, no branch runs and the world is unchanged; so whenever such
  an invocation returns without error, the stored record carries the finalizer.  If the
  record has a failure message, or its owner is not set yet, the invocation returns at that
  check, without error and with the world unchanged: no finalizer is added.
\<close>

theorem finalizer_added_past_checks_only:
  assumes "Get_err c = None" and "obj w = Some am"
    and "IsZero (DeletionTimestamp (ObjectMeta am))"
  shows "(FailureMessage (Status am) = None \<and> GetOwnerMachine c (ObjectMeta am) = Inr (Some m) \<longrightarrow>
           (NewHelper_err c = None \<longrightarrow>
              (\<exists>out am1 tr1.
                 Reconcile_body c rt api m (AddFinalizer am MachineFinalizer) (trace w) = (out, am1, tr1)
                 \<and> Reconcile c rt api w = deferred_patch c out am1 w tr1
                 \<and> MachineFinalizer \<in> set (Finalizers (ObjectMeta am1))
                 \<and> (Patch_err c = None \<longrightarrow> obj (snd (Reconcile c rt api w)) = Some am1)))
           \<and> (NewHelper_err c \<noteq> None \<longrightarrow> snd (Reconcile c rt api w) = w)
           \<and> (\<forall>r. fst (Reconcile c rt api w) = Returned r None \<longrightarrow>
                (\<exists>am1. obj (snd (Reconcile c rt api w)) = Some am1
                   \<and> MachineFinalizer \<in> set (Finalizers (ObjectMeta am1)))))
         \<and> (FailureMessage (Status am) \<noteq> None \<or> GetOwnerMachine c (ObjectMeta am) = Inr None \<longrightarrow>
              Reconcile c rt api w = (Returned NoRequeue None, w))"
proof (intro conjI)
  show "FailureMessage (Status am) = None \<and> GetOwnerMachine c (ObjectMeta am) = Inr (Some m) \<longrightarrow>
           (NewHelper_err c = None \<longrightarrow>
              (\<exists>out am1 tr1.
                 Reconcile_body c rt api m (AddFinalizer am MachineFinalizer) (trace w) = (out, am1, tr1)
                 \<and> Reconcile c rt api w = deferred_patch c out am1 w tr1
                 \<and> MachineFinalizer \<in> set (Finalizers (ObjectMeta am1))
                 \<and> (Patch_err c = None \<longrightarrow> obj (snd (Reconcile c rt api w)) = Some am1)))
           \<and> (NewHelper_err c \<noteq> None \<longrightarrow> snd (Reconcile c rt api w) = w)
           \<and> (\<forall>r. fst (Reconcile c rt api w) = Returned r None \<longrightarrow>
                (\<exists>am1. obj (snd (Reconcile c rt api w)) = Some am1
                   \<and> MachineFinalizer \<in> set (Finalizers (ObjectMeta am1))))"
  proof
    assume h: "FailureMessage (Status am) = None \<and> GetOwnerMachine c (ObjectMeta am) = Inr (Some m)"
    then have f: "FailureMessage (Status am) = None"
      and o: "GetOwnerMachine c (ObjectMeta am) = Inr (Some m)" by simp_all
    show "(NewHelper_err c = None \<longrightarrow>
              (\<exists>out am1 tr1.
                 Reconcile_body c rt api m (AddFinalizer am MachineFinalizer) (trace w) = (out, am1, tr1)
                 \<and> Reconcile c rt api w = deferred_patch c out am1 w tr1
                 \<and> MachineFinalizer \<in> set (Finalizers (ObjectMeta am1))
                 \<and> (Patch_err c = None \<longrightarrow> obj (snd (Reconcile c rt api w)) = Some am1)))
           \<and> (NewHelper_err c \<noteq> None \<longrightarrow> snd (Reconcile c rt api w) = w)
           \<and> (\<forall>r. fst (Reconcile c rt api w) = Returned r None \<longrightarrow>
                (\<exists>am1. obj (snd (Reconcile c rt api w)) = Some am1
                   \<and> MachineFinalizer \<in> set (Finalizers (ObjectMeta am1))))"
      by (rule Reconcile_past_checks [OF assms(1) assms(2) assms(3) f o])
  qed
next
  show "FailureMessage (Status am) \<noteq> None \<or> GetOwnerMachine c (ObjectMeta am) = Inr None \<longrightarrow>
          Reconcile c rt api w = (Returned NoRequeue None, w)"
  proof
    assume "FailureMessage (Status am) \<noteq> None \<or> GetOwnerMachine c (ObjectMeta am) = Inr None"
    then show "Reconcile c rt api w = (Returned NoRequeue None, w)"
      by (rule Reconcile_stops_early [OF assms(1) assms(2) assms(3)])
  qed
qed

theorem finalizer_added_past_checks_only_witness:
  "fst (Reconcile good_client plain_runtime (backend_reporting ''running'')
          \<lparr>obj = Some (machine_record None None []), trace = []\<rparr>) = Returned NoRequeue None
   \<and> (\<exists>am1. obj (snd (Reconcile good_client plain_runtime (backend_reporting ''running'')
                        \<lparr>obj = Some (machine_record None None []), trace = []\<rparr>)) = Some am1
          \<and> MachineFinalizer \<in> set (Finalizers (ObjectMeta am1)))
   \<and> snd (Reconcile (good_client\<lparr>NewHelper_err := Some ''no kind registered''\<rparr>) plain_runtime
             (backend_reporting ''running'')
             \<lparr>obj = Some (machine_record None None []), trace = []\<rparr>)
       = \<lparr>obj = Some (machine_record None None []), trace = []\<rparr>
   \<and> Reconcile ownerless_client plain_runtime (backend_reporting ''running'')
        \<lparr>obj = Some (machine_record None None []), trace = []\<rparr>
       = (Returned NoRequeue None, \<lparr>obj = Some (machine_record None None []), trace = []\<rparr>)"
proof -
  let ?am = "machine_record None None []"
  let ?w = "\<lparr>obj = Some ?am, trace = []\<rparr>"
  let ?c = "good_client\<lparr>NewHelper_err := Some ''no kind registered''\<rparr>"
  let ?api = "backend_reporting ''running''"
  have 1: "Get_err good_client = None" "Get_err ?c = None" "Get_err ownerless_client = None"
    by (simp_all add: good_client_def ownerless_client_def)
  have 2: "obj ?w = Some ?am" by simp
  have 3: "IsZero (DeletionTimestamp (ObjectMeta ?am))"
    by (simp add: machine_record_def IsZero_def)
  have 4: "FailureMessage (Status ?am) = None"
    by (simp add: machine_record_def emptyStatus_def)
  have 5: "GetOwnerMachine good_client (ObjectMeta ?am) = Inr (Some owner_machine)"
    "GetOwnerMachine ?c (ObjectMeta ?am) = Inr (Some owner_machine)"
    by (simp_all add: good_client_def)
  have 6: "NewHelper_err ?c \<noteq> None" by simp
  have 7: "GetOwnerMachine ownerless_client (ObjectMeta ?am) = Inr None"
    by (simp add: ownerless_client_def)
  from finalizer_added_past_checks_only [OF 1(1) 2 3, of owner_machine plain_runtime ?api]
    4 5(1) example_first_reconcile
  have a: "\<exists>am1. obj (snd (Reconcile good_client plain_runtime ?api ?w)) = Some am1
          \<and> MachineFinalizer \<in> set (Finalizers (ObjectMeta am1))"
    by blast
  from finalizer_added_past_checks_only [OF 1(2) 2 3, of owner_machine plain_runtime ?api] 4 5(2) 6
  have b: "snd (Reconcile ?c plain_runtime ?api ?w) = ?w"
    by blast
  from finalizer_added_past_checks_only [OF 1(3) 2 3, of owner_machine plain_runtime ?api] 7
  have c: "Reconcile ownerless_client plain_runtime ?api ?w = (Returned NoRequeue None, ?w)"
    by blast
  from example_first_reconcile a b c show ?thesis by blast
qed

text \<open>
  C6 as stated fails for the part that speaks of every record: the first reconciliation of a
  record whose owner is not set yet succeeds (it returns no error) and leaves the stored
  record without the finalizer.
\<close>

theorem first_reconcile_without_owner_adds_no_finalizer:
  "GetOwnerMachine ownerless_client (ObjectMeta (machine_record None None [])) = Inr None
   \<and> fst (Reconcile ownerless_client plain_runtime (backend_reporting ''running'')
          \<lparr>obj = Some (machine_record None None []), trace = []\<rparr>) = Returned NoRequeue None
   \<and> obj (snd (Reconcile ownerless_client plain_runtime (backend_reporting ''running'')
          \<lparr>obj = Some (machine_record None None []), trace = []\<rparr>))
       = Some (machine_record None None [])
   \<and> MachineFinalizer \<notin> set (Finalizers (ObjectMeta (machine_record None None [])))"
  by (simp add: Reconcile_def ownerless_client_def good_client_def machine_record_def IsZero_def
      emptyStatus_def)


text \<open>
  C9.  A record with a deletion marker and no provider identity: the deletion protocol
  dereferences the nil identity at its first statement.  Nothing has been deferred and
  nothing recovers, so the invocation panics; it returns no error and the world is as it
  was.
\<close>

theorem delete_without_identity_panics:
  assumes "Get_err c = None" and "obj w = Some am"
    and "\<not> IsZero (DeletionTimestamp (ObjectMeta am))" and "ProviderID (Spec am) = None"
  shows "reconcileDelete api am (trace w) = (Panic, trace w) \<and> Reconcile c rt api w = (Panicked, w)"
proof -
  have d: "reconcileDelete api am (trace w) = (Panic, trace w)"
    using assms(4) by (simp add: reconcileDelete_def)
  then have "Reconcile c rt api w = (Panicked, w)"
    using assms by (simp add: Reconcile_def)
  with d show ?thesis by simp
qed

theorem delete_without_identity_panics_witness:
  "Reconcile good_client plain_runtime (backend_reporting ''running'')
      \<lparr>obj = Some (machine_record None (Some 1) [MachineFinalizer]), trace = []\<rparr>
     = (Panicked, \<lparr>obj = Some (machine_record None (Some 1) [MachineFinalizer]), trace = []\<rparr>)"
proof -
  let ?am = "machine_record None (Some 1) [MachineFinalizer]"
  let ?w = "\<lparr>obj = Some ?am, trace = []\<rparr>"
  have 1: "Get_err good_client = None" by (simp add: good_client_def)
  have 2: "obj ?w = Some ?am" by simp
  have 3: "\<not> IsZero (DeletionTimestamp (ObjectMeta ?am))"
    by (simp add: machine_record_def IsZero_def)
  have 4: "ProviderID (Spec ?am) = None"
    by (simp add: machine_record_def emptySpec_def)
  from delete_without_identity_panics [OF 1 2 3 4, of "backend_reporting ''running''" plain_runtime]
  show ?thesis by blast
qed


lemma reconcileStatus_not_found:
  assumes "ProviderID (Spec am) = Some s" and "ParseProviderID s = Ok p"
    and "\<not> Ready (Status am)"
    and "DescribeInstanceStatus api \<lparr>CfgRegion = Region p, CfgCredentials = None\<rparr> (InstanceID p) tr
           = (Ok state, tr1)"
    and "DescribeInstance api \<lparr>CfgRegion = Region p, CfgCredentials = None\<rparr> (InstanceID p) tr1
           = (Ok (None, found), tr2)"
  shows "reconcileStatus api am tr = (Panic, am\<lparr>Status := (Status am)\<lparr>InstanceState := state\<rparr>\<rparr>, tr2)"
  using assms by (simp add: reconcileStatus_def Let_def getInstanceAddresses_nil)

lemma ensureAWSMachineForNode_not_found:
  assumes "Annotations n NodeOwnerLabelName = None" and "List_AWSMachines c = Inr items"
    and "find (\<lambda>m. ProviderID (Spec m) = Some (NodeProviderID n)) items = None"
    and "ParseProviderID (NodeProviderID n) = Ok p"
    and "DescribeInstance api \<lparr>CfgRegion = Region p, CfgCredentials = None\<rparr> (InstanceID p) tr
           = (Ok (None, found), tr1)"
  shows "ensureAWSMachineForNode c api n tr = (Panic, tr1)"
  using assms by (simp add: ensureAWSMachineForNode_def Let_def getInstanceAddresses_nil)

lemma Reconcile_status_not_found:
  assumes "Get_err c = None" and "obj w = Some am"
    and "IsZero (DeletionTimestamp (ObjectMeta am))" and "FailureMessage (Status am) = None"
    and "GetOwnerMachine c (ObjectMeta am) = Inr (Some m)" and "NewHelper_err c = None"
    and "ProviderID (Spec am) = Some s" and "ParseProviderID s = Ok p"
    and "\<not> Ready (Status am)"
    and "\<forall>tr. DescribeInstancesWithContext api tr \<lparr>CfgRegion = Region p, CfgCredentials = None\<rparr> (InstanceID p)
           = Inl (AwsErr InstanceNotFound msg)"
  shows "fst (Reconcile c rt api w) = Panicked"
proof -
  let ?cfg = "\<lparr>CfgRegion = Region p, CfgCredentials = None\<rparr>"
  let ?am0 = "AddFinalizer am MachineFinalizer"
  let ?t1 = "trace w @ [DescribeInstancesCall ?cfg (InstanceID p)]"
  let ?t2 = "?t1 @ [DescribeInstancesCall ?cfg (InstanceID p)]"
  have d: "DescribeInstance api ?cfg (InstanceID p) tr = (Ok (None, False), tr @ [DescribeInstancesCall ?cfg (InstanceID p)])" for tr
    using assms(10) by (simp add: DescribeInstance_not_found)
  then have ds: "DescribeInstanceStatus api ?cfg (InstanceID p) (trace w) = (Ok InstanceStateNameTerminated, ?t1)"
    by (simp add: DescribeInstanceStatus_def)
  have "reconcileStatus api ?am0 (trace w)
          = (Panic, ?am0\<lparr>Status := (Status ?am0)\<lparr>InstanceState := InstanceStateNameTerminated\<rparr>\<rparr>, ?t2)"
    using assms(7,8,9) ds d [of ?t1]
    by (intro reconcileStatus_not_found [where s = s and p = p and found = False and ?tr1.0 = ?t1])
       (simp_all add: AddFinalizer_keeps)
  then have "Reconcile_body c rt api m ?am0 (trace w)
          = (Panicked, ?am0\<lparr>Status := (Status ?am0)\<lparr>InstanceState := InstanceStateNameTerminated\<rparr>\<rparr>, ?t2)"
    using assms(7) by (simp add: Reconcile_body_def AddFinalizer_keeps)
  then show ?thesis
    using assms(1-6) by (simp add: Reconcile_def deferred_patch_def split: option.splits)
qed

text \<open>
  C10.  Both callers of \<open>DescribeInstance\<close> that go on to read the addresses drop its
  \<open>exists\<close> flag.  When the instance is not found, the instance they pass on is nil and
  \<open>getInstanceAddresses\<close> dereferences it: the status refresh of a record that is not yet
  ready panics, the node backfill panics, and so does the whole lifecycle invocation on such
  a record (every describe call answering not-found).
\<close>

theorem not_found_instance_panics:
  "getInstanceAddresses None = Panic
   \<and> (ProviderID (Spec am) = Some s \<and> ParseProviderID s = Ok p \<and> \<not> Ready (Status am)
      \<and> DescribeInstanceStatus api \<lparr>CfgRegion = Region p, CfgCredentials = None\<rparr> (InstanceID p) tr
          = (Ok state, tr1)
      \<and> DescribeInstance api \<lparr>CfgRegion = Region p, CfgCredentials = None\<rparr> (InstanceID p) tr1
          = (Ok (None, False), tr2)
    \<longrightarrow> fst (reconcileStatus api am tr) = Panic)
   \<and> (Annotations n NodeOwnerLabelName = None \<and> List_AWSMachines c = Inr items
      \<and> find (\<lambda>m. ProviderID (Spec m) = Some (NodeProviderID n)) items = None
      \<and> ParseProviderID (NodeProviderID n) = Ok q
      \<and> DescribeInstance api \<lparr>CfgRegion = Region q, CfgCredentials = None\<rparr> (InstanceID q) tr
          = (Ok (None, False), tr3)
    \<longrightarrow> fst (ensureAWSMachineForNode c api n tr) = Panic)
   \<and> (Get_err c = None \<and> obj w = Some am
      \<and> IsZero (DeletionTimestamp (ObjectMeta am)) \<and> FailureMessage (Status am) = None
      \<and> GetOwnerMachine c (ObjectMeta am) = Inr (Some m) \<and> NewHelper_err c = None
      \<and> ProviderID (Spec am) = Some s \<and> ParseProviderID s = Ok p \<and> \<not> Ready (Status am)
      \<and> (\<forall>tr. DescribeInstancesWithContext api tr \<lparr>CfgRegion = Region p, CfgCredentials = None\<rparr> (InstanceID p)
            = Inl (AwsErr InstanceNotFound msg))
    \<longrightarrow> fst (Reconcile c rt api w) = Panicked)"
proof (intro conjI impI)
  show "getInstanceAddresses None = Panic" by (rule getInstanceAddresses_nil)
next
  assume "ProviderID (Spec am) = Some s \<and> ParseProviderID s = Ok p \<and> \<not> Ready (Status am)
      \<and> DescribeInstanceStatus api \<lparr>CfgRegion = Region p, CfgCredentials = None\<rparr> (InstanceID p) tr
          = (Ok state, tr1)
      \<and> DescribeInstance api \<lparr>CfgRegion = Region p, CfgCredentials = None\<rparr> (InstanceID p) tr1
          = (Ok (None, False), tr2)"
  then show "fst (reconcileStatus api am tr) = Panic"
    using reconcileStatus_not_found [of am s p api tr state tr1 False tr2] by simp
next
  assume "Annotations n NodeOwnerLabelName = None \<and> List_AWSMachines c = Inr items
      \<and> find (\<lambda>m. ProviderID (Spec m) = Some (NodeProviderID n)) items = None
      \<and> ParseProviderID (NodeProviderID n) = Ok q
      \<and> DescribeInstance api \<lparr>CfgRegion = Region q, CfgCredentials = None\<rparr> (InstanceID q) tr
          = (Ok (None, False), tr3)"
  then show "fst (ensureAWSMachineForNode c api n tr) = Panic"
    using ensureAWSMachineForNode_not_found [of n c items q api tr False tr3] by simp
next
  assume "Get_err c = None \<and> obj w = Some am
      \<and> IsZero (DeletionTimestamp (ObjectMeta am)) \<and> FailureMessage (Status am) = None
      \<and> GetOwnerMachine c (ObjectMeta am) = Inr (Some m) \<and> NewHelper_err c = None
      \<and> ProviderID (Spec am) = Some s \<and> ParseProviderID s = Ok p \<and> \<not> Ready (Status am)
      \<and> (\<forall>tr. DescribeInstancesWithContext api tr \<lparr>CfgRegion = Region p, CfgCredentials = None\<rparr> (InstanceID p)
            = Inl (AwsErr InstanceNotFound msg))"
  then show "fst (Reconcile c rt api w) = Panicked"
    using Reconcile_status_not_found [of c w am m s p api msg rt] by blast
qed


lemma not_found_describe:
  "DescribeInstance backend_not_found cfg ident tr = (Ok (None, False), tr @ [DescribeInstancesCall cfg ident])"
  by (rule DescribeInstance_not_found [where msg = "''no such instance''"])
     (simp add: backend_not_found_def fixed_backend_def)

lemma not_found_status:
  "DescribeInstanceStatus backend_not_found cfg ident tr
     = (Ok InstanceStateNameTerminated, tr @ [DescribeInstancesCall cfg ident])"
  by (simp add: DescribeInstanceStatus_def not_found_describe)

theorem not_found_instance_panics_witness:
  "fst (reconcileStatus backend_not_found (machine_record (Some ''aws:///us-east-1a/i-0abc'') None []) []) = Panic
   \<and> fst (ensureAWSMachineForNode good_client backend_not_found joined_node []) = Panic
   \<and> fst (Reconcile good_client plain_runtime backend_not_found
        \<lparr>obj = Some (machine_record (Some ''aws:///us-east-1a/i-0abc'') None []), trace = []\<rparr>) = Panicked"
proof -
  let ?am = "machine_record (Some ''aws:///us-east-1a/i-0abc'') None []"
  let ?w = "\<lparr>obj = Some ?am, trace = []\<rparr>"
  let ?p = "\<lparr>AvailabilityZone = ''us-east-1a'', Region = ''us-east-1'', InstanceID = ''i-0abc''\<rparr>"
  let ?cfg = "\<lparr>CfgRegion = Region ?p, CfgCredentials = None\<rparr>"
  have pid: "ProviderID (Spec ?am) = Some ''aws:///us-east-1a/i-0abc''"
    by (simp add: machine_record_def emptySpec_def)
  have unready: "\<not> Ready (Status ?am)"
    by (simp add: machine_record_def emptyStatus_def)
  have a: "ProviderID (Spec ?am) = Some ''aws:///us-east-1a/i-0abc''
      \<and> ParseProviderID ''aws:///us-east-1a/i-0abc'' = Ok ?p \<and> \<not> Ready (Status ?am)
      \<and> DescribeInstanceStatus backend_not_found ?cfg (InstanceID ?p) []
          = (Ok InstanceStateNameTerminated, [] @ [DescribeInstancesCall ?cfg (InstanceID ?p)])
      \<and> DescribeInstance backend_not_found ?cfg (InstanceID ?p) ([] @ [DescribeInstancesCall ?cfg (InstanceID ?p)])
          = (Ok (None, False), ([] @ [DescribeInstancesCall ?cfg (InstanceID ?p)])
                @ [DescribeInstancesCall ?cfg (InstanceID ?p)])"
    using pid unready example_parse not_found_status not_found_describe by blast
  have b: "Annotations joined_node NodeOwnerLabelName = None \<and> List_AWSMachines good_client = Inr []
      \<and> find (\<lambda>m. ProviderID (Spec m) = Some (NodeProviderID joined_node)) [] = None
      \<and> ParseProviderID (NodeProviderID joined_node) = Ok ?p
      \<and> DescribeInstance backend_not_found ?cfg (InstanceID ?p) []
          = (Ok (None, False), [] @ [DescribeInstancesCall ?cfg (InstanceID ?p)])"
    using example_parse not_found_describe by (simp add: joined_node_def good_client_def)
  have c: "Get_err good_client = None \<and> obj ?w = Some ?am
      \<and> IsZero (DeletionTimestamp (ObjectMeta ?am)) \<and> FailureMessage (Status ?am) = None
      \<and> GetOwnerMachine good_client (ObjectMeta ?am) = Inr (Some owner_machine)
      \<and> NewHelper_err good_client = None
      \<and> ProviderID (Spec ?am) = Some ''aws:///us-east-1a/i-0abc''
      \<and> ParseProviderID ''aws:///us-east-1a/i-0abc'' = Ok ?p \<and> \<not> Ready (Status ?am)
      \<and> (\<forall>tr. DescribeInstancesWithContext backend_not_found tr ?cfg (InstanceID ?p)
            = Inl (AwsErr InstanceNotFound ''no such instance''))"
    using example_parse
    by (simp add: good_client_def machine_record_def emptySpec_def emptyStatus_def IsZero_def
        backend_not_found_def fixed_backend_def)
  note t = not_found_instance_panics [where am = ?am and s = "''aws:///us-east-1a/i-0abc''" and p = ?p
      and api = backend_not_found and tr = "[]" and state = InstanceStateNameTerminated
      and ?tr1.0 = "[] @ [DescribeInstancesCall ?cfg (InstanceID ?p)]"
      and ?tr2.0 = "([] @ [DescribeInstancesCall ?cfg (InstanceID ?p)]) @ [DescribeInstancesCall ?cfg (InstanceID ?p)]"
      and n = joined_node and c = good_client and items = "[]" and q = ?p
      and ?tr3.0 = "[] @ [DescribeInstancesCall ?cfg (InstanceID ?p)]"
      and w = ?w and m = owner_machine and msg = "''no such instance''" and rt = plain_runtime]
  from t a b c show ?thesis by blast
qed


end
